theory Spec2Isabelle
  imports Main "HOL-Library.AList"
begin

section \<open>Python values and dictionaries\<close>

text \<open>
  The scrapers pass listings around as Python dictionaries from string keys to values that
  are \<^verbatim>\<open>None\<close>, booleans, integers, strings or lists. A dictionary keeps its keys in
  insertion order and holds each key once, so it is an association list that is only ever
  changed through \<open>dict_set\<close>. A string is a list of characters, a character being a code
  point below 256.
\<close>

datatype pyval = PNone | PBool bool | PInt int | PStr string | PList "pyval list"

datatype py_error = KeyError | TypeError | ValueError | AttributeError | OverflowError

type_synonym pydict = "(string \<times> pyval) list"

definition dict_get :: "pydict \<Rightarrow> string \<Rightarrow> pyval option" where
  "dict_get d k = map_of d k"

definition dict_has :: "pydict \<Rightarrow> string \<Rightarrow> bool" where
  "dict_has d k = (map_of d k \<noteq> None)"

definition dict_set :: "pydict \<Rightarrow> string \<Rightarrow> pyval \<Rightarrow> pydict" where
  "dict_set d k v = AList.update k v d"

definition dict_keys :: "pydict \<Rightarrow> string list" where
  "dict_keys d = map fst d"

text \<open>Truth value of a Python object, as \<^verbatim>\<open>if x:\<close> and \<^verbatim>\<open>and\<close>/\<^verbatim>\<open>or\<close> test it.\<close>

fun truthy :: "pyval \<Rightarrow> bool" where
  "truthy PNone = False"
| "truthy (PBool b) = b"
| "truthy (PInt n) = (n \<noteq> 0)"
| "truthy (PStr s) = (s \<noteq> [])"
| "truthy (PList xs) = (xs \<noteq> [])"

section \<open>Store gateway: \<^verbatim>\<open>SupabaseConnector.save_listings\<close>\<close>

text \<open>
  The remote store is outside the program. One \<^verbatim>\<open>upsert(batch).execute()\<close> either
  succeeds, returns a result whose \<^verbatim>\<open>error\<close> is set, or raises. The store's answer may
  depend on everything it was sent before, so the client is a function of the log of
  earlier calls; the log is the only state \<^verbatim>\<open>save_listings\<close> changes in the store, and
  an upsert is the only operation it ever issues.
\<close>

datatype upsert_outcome = UpsertOk | UpsertResultError | UpsertRaised

type_synonym upsert_call = "string \<times> pydict list \<times> upsert_outcome"

type_synonym supabase_client = "upsert_call list \<Rightarrow> string \<Rightarrow> pydict list \<Rightarrow> upsert_outcome"

record connector =
  client :: "supabase_client option"
  using_service_role :: bool

definition valid_fields :: "string list" where
  "valid_fields =
     [''id'', ''title'', ''url'', ''price'', ''location'', ''description'',
      ''images'', ''features'', ''size'', ''layout'', ''year_built'',
      ''building_type'', ''access'', ''source'', ''property_type'',
      ''created_at'', ''updated_at'', ''initial_fees'']"

definition batch_size :: nat where
  "batch_size = 100"

text \<open>
  \<^verbatim>\<open>if "created_at" not in listing: listing["created_at"] = datetime.now().isoformat()\<close>.
  The clock reading is a parameter.
\<close>

definition add_created_at :: "string \<Rightarrow> pydict \<Rightarrow> pydict" where
  "add_created_at now listing =
     (if \<not> dict_has listing ''created_at'' then dict_set listing ''created_at'' (PStr now)
      else listing)"

text \<open>
  The loop over \<^verbatim>\<open>listing.items()\<close> that builds \<^verbatim>\<open>filtered_listing\<close>. \<^verbatim>\<open>json.dumps\<close>
  is the library's and is a parameter; it is applied to list values only.
\<close>

fun filter_fields :: "(pyval \<Rightarrow> string) \<Rightarrow> pydict \<Rightarrow> pydict \<Rightarrow> pydict" where
  "filter_fields json_dumps [] filtered_listing = filtered_listing"
| "filter_fields json_dumps ((key, val) # items) filtered_listing =
     (if key \<notin> set valid_fields then filter_fields json_dumps items filtered_listing
      else case val of
             PList xs \<Rightarrow>
               filter_fields json_dumps items
                 (dict_set filtered_listing key (PStr (json_dumps val)))
           | _ \<Rightarrow> filter_fields json_dumps items (dict_set filtered_listing key val))"

text \<open>
  The first loop of \<^verbatim>\<open>save_listings\<close>: \<open>clock i\<close> is what \<^verbatim>\<open>datetime.now()\<close> gives
  while the \<open>i\<close>-th listing is formatted.
\<close>

fun format_listings :: "(nat \<Rightarrow> string) \<Rightarrow> (pyval \<Rightarrow> string) \<Rightarrow> nat \<Rightarrow> pydict list \<Rightarrow> pydict list" where
  "format_listings clock json_dumps i [] = []"
| "format_listings clock json_dumps i (listing # rest) =
     filter_fields json_dumps (add_created_at (clock i) listing) []
       # format_listings clock json_dumps (Suc i) rest"

text \<open>
  \<^verbatim>\<open>all_keys = set(); for listing in formatted_listings: all_keys.update(listing.keys())\<close>.
  A Python set is iterated in an order the language does not fix; the model lists the keys
  in the order they are first seen.
\<close>

definition all_keys :: "pydict list \<Rightarrow> string list" where
  "all_keys formatted_listings = remdups (concat (map dict_keys formatted_listings))"

text \<open>\<^verbatim>\<open>for key in all_keys: if key not in listing: listing[key] = None\<close>\<close>

fun pad_listing :: "string list \<Rightarrow> pydict \<Rightarrow> pydict" where
  "pad_listing [] listing = listing"
| "pad_listing (key # keys) listing =
     pad_listing keys (if \<not> dict_has listing key then dict_set listing key PNone else listing)"

definition standardize :: "pydict list \<Rightarrow> pydict list" where
  "standardize formatted_listings = map (pad_listing (all_keys formatted_listings)) formatted_listings"

text \<open>
  \<^verbatim>\<open>for i in range(0, len(formatted_listings), batch_size)\<close>: the chunk is the slice
  \<^verbatim>\<open>formatted_listings[i:i+batch_size]\<close>; the first chunk whose upsert does not succeed
  makes the function return \<^verbatim>\<open>False\<close> at once.
\<close>

function send_batches ::
  "supabase_client \<Rightarrow> string \<Rightarrow> pydict list \<Rightarrow> nat \<Rightarrow> upsert_call list \<Rightarrow> bool \<times> upsert_call list" where
  "send_batches upsert table_name formatted_listings i log =
     (if i < length formatted_listings then
        (let batch = take batch_size (drop i formatted_listings);
             outcome = upsert log table_name batch
         in if outcome = UpsertOk
            then send_batches upsert table_name formatted_listings (i + batch_size)
                   (log @ [(table_name, batch, outcome)])
            else (False, log @ [(table_name, batch, outcome)]))
      else (True, log))"
  by pat_completeness auto
termination
  by (relation "measure (\<lambda>(upsert, table_name, formatted_listings, i, log). length formatted_listings - i)")
     (auto simp: batch_size_def)

declare send_batches.simps [simp del]

definition save_listings ::
  "connector \<Rightarrow> (nat \<Rightarrow> string) \<Rightarrow> (pyval \<Rightarrow> string) \<Rightarrow> pydict list \<Rightarrow> string \<Rightarrow> upsert_call list
     \<Rightarrow> bool \<times> upsert_call list" where
  "save_listings self clock json_dumps listings table_name log =
     (case client self of
        None \<Rightarrow> (False, log)
      | Some upsert \<Rightarrow>
          if listings = [] then (False, log)
          else send_batches upsert table_name
                 (standardize (format_listings clock json_dumps 0 listings)) 0 log)"

definition rows_sent :: "upsert_call list \<Rightarrow> pydict list" where
  "rows_sent log = concat (map (\<lambda>(table_name, batch, outcome). batch) log)"

definition call_batch :: "upsert_call \<Rightarrow> pydict list" where
  "call_batch c = fst (snd c)"

definition call_outcome :: "upsert_call \<Rightarrow> upsert_outcome" where
  "call_outcome c = snd (snd c)"

section \<open>Field normalizer: \<^verbatim>\<open>BaseScraper.clean_data\<close>\<close>

subsection \<open>\<^verbatim>\<open>int(float(numeric_str))\<close>\<close>

text \<open>
  \<^verbatim>\<open>float\<close> reads a decimal literal and returns the nearest IEEE-754 binary64 number, ties
  to the even significand; \<^verbatim>\<open>int\<close> then drops the fraction, and raises
  \<^verbatim>\<open>OverflowError\<close> on infinity. The literal is the fraction \<open>n / d\<close> of two naturals.
\<close>

fun bit_length :: "nat \<Rightarrow> nat" where
  "bit_length n = (if n = 0 then 0 else Suc (bit_length (n div 2)))"

declare bit_length.simps [simp del]

text \<open>The \<open>e\<close> with \<open>2 ^ e \<le> n / d < 2 ^ (e + 1)\<close>, for positive \<open>n\<close> and \<open>d\<close>.\<close>

definition binary_exponent :: "nat \<Rightarrow> nat \<Rightarrow> int" where
  "binary_exponent n d =
     (if d \<le> n then int (bit_length (n div d)) - 1 else - int (bit_length ((d - 1) div n)))"

text \<open>The integer nearest to \<open>a / b\<close>, the even one of two equally near.\<close>

definition round_half_even :: "nat \<Rightarrow> nat \<Rightarrow> nat" where
  "round_half_even a b =
     (let q = a div b; r = a mod b
      in if 2 * r < b then q else if b < 2 * r then q + 1 else if even q then q else q + 1)"

text \<open>
  A binary64 number near \<open>n / d\<close> is \<open>m * 2 ^ p\<close> with \<open>p = max e (-1022) - 52\<close>; a result
  of \<open>2 ^ 1024\<close> or more is infinity.
\<close>

definition float_to_int :: "nat \<Rightarrow> nat \<Rightarrow> py_error + int" where
  "float_to_int n d =
     (if n = 0 then Inr 0
      else let p = max (binary_exponent n d) (- 1022) - 52;
               m = (if 0 \<le> p then round_half_even n (d * 2 ^ nat p)
                    else round_half_even (n * 2 ^ nat (- p)) d)
           in if 0 \<le> p \<and> 2 ^ 1024 \<le> m * 2 ^ nat p then Inl OverflowError
              else if 0 \<le> p then Inr (int (m * 2 ^ nat p))
              else Inr (int (m div 2 ^ nat (- p))))"

text \<open>
  A Python string is a sequence of Unicode code points, and a price string may hold any of
  them. The pattern \<^verbatim>\<open>\d\<close> and \<^verbatim>\<open>float\<close> read one and the same table of decimal digits:
  on ASCII the characters \<open>0\<close> to \<open>9\<close> and nothing else, beyond ASCII what the interpreter's
  Unicode database says, which is the parameter \<open>unicode_decimal\<close> (the digit value of a
  code point that is a decimal digit).
\<close>

definition decimal_digit :: "(nat \<Rightarrow> nat option) \<Rightarrow> nat \<Rightarrow> nat option" where
  "decimal_digit unicode_decimal c =
     (if 48 \<le> c \<and> c \<le> 57 then Some (c - 48)
      else if c < 128 then None
      else unicode_decimal c)"

definition is_decimal :: "(nat \<Rightarrow> nat option) \<Rightarrow> nat \<Rightarrow> bool" where
  "is_decimal unicode_decimal c = (decimal_digit unicode_decimal c \<noteq> None)"

text \<open>The code point of the decimal point.\<close>

definition point :: nat where
  "point = 46"

text \<open>The values of the decimal digits of a string, in the order of the string.\<close>

fun digit_values :: "(nat \<Rightarrow> nat option) \<Rightarrow> nat list \<Rightarrow> nat list" where
  "digit_values unicode_decimal [] = []"
| "digit_values unicode_decimal (c # cs) =
     (case decimal_digit unicode_decimal c of
        Some v \<Rightarrow> v # digit_values unicode_decimal cs
      | None \<Rightarrow> digit_values unicode_decimal cs)"

text \<open>The number a sequence of digits denotes, read positionally.\<close>

definition digits_value :: "nat list \<Rightarrow> nat" where
  "digits_value ds = foldl (\<lambda>acc v. 10 * acc + v) 0 ds"

text \<open>
  \<^verbatim>\<open>int(float(numeric_str))\<close> on a string of digits and decimal points, which is all that
  is left after the substitution: \<^verbatim>\<open>float\<close> raises \<^verbatim>\<open>ValueError\<close> unless the string is
  digits with at most one point and at least one digit.
\<close>

definition int_of_float_str :: "(nat \<Rightarrow> nat option) \<Rightarrow> nat list \<Rightarrow> py_error + int" where
  "int_of_float_str unicode_decimal numeric_str =
     (let int_part = takeWhile (\<lambda>c. c \<noteq> point) numeric_str;
          frac_part = drop 1 (dropWhile (\<lambda>c. c \<noteq> point) numeric_str)
      in if point \<in> set frac_part \<or> (int_part = [] \<and> frac_part = []) then Inl ValueError
         else float_to_int (digits_value (digit_values unicode_decimal (int_part @ frac_part)))
                (10 ^ length frac_part))"

subsection \<open>\<^verbatim>\<open>BaseScraper._extract_numeric_price\<close>\<close>

text \<open>
  The function on the code points of a string. \<^verbatim>\<open>re.sub(r'[^\d.]', '', price_str)\<close> keeps
  the decimal digits and the points. The function catches \<^verbatim>\<open>ValueError\<close> only.
\<close>

definition extract_numeric_price_str :: "(nat \<Rightarrow> nat option) \<Rightarrow> nat list \<Rightarrow> py_error + pyval" where
  "extract_numeric_price_str unicode_decimal price_str =
     (let numeric_str = filter (\<lambda>c. is_decimal unicode_decimal c \<or> c = point) price_str
      in if numeric_str = [] then Inr PNone
         else case int_of_float_str unicode_decimal numeric_str of
                Inr n \<Rightarrow> Inr (PInt n)
              | Inl ValueError \<Rightarrow> Inr PNone
              | Inl e \<Rightarrow> Inl e)"

text \<open>
  The function on a value of a listing: \<^verbatim>\<open>re.sub\<close> raises \<^verbatim>\<open>TypeError\<close> when
  \<^verbatim>\<open>price_str\<close> is not a string. The strings that listings hold here have code points
  below 256, among which Unicode has no decimal digit but \<open>0\<close> to \<open>9\<close>.
\<close>

definition extract_numeric_price :: "pyval \<Rightarrow> py_error + pyval" where
  "extract_numeric_price price_str =
     (case price_str of
        PStr s \<Rightarrow> extract_numeric_price_str (\<lambda>c. None) (map of_char s)
      | _ \<Rightarrow> Inl TypeError)"

subsection \<open>\<^verbatim>\<open>BaseScraper.clean_data\<close>\<close>

definition standard_fields :: "string list" where
  "standard_fields =
     [''title'', ''description'', ''address'', ''size'', ''rooms'',
      ''bathrooms'', ''location'', ''coordinates'', ''images'']"

text \<open>
  \<^verbatim>\<open>if "price" in data: try: ... except (ValueError, TypeError): ...\<close>. Any other
  exception leaves \<^verbatim>\<open>clean_data\<close>.
\<close>

definition clean_price :: "pydict \<Rightarrow> pydict \<Rightarrow> py_error + pydict" where
  "clean_price data cleaned =
     (case dict_get data ''price'' of
        None \<Rightarrow> Inr cleaned
      | Some price \<Rightarrow>
          (case extract_numeric_price price of
             Inr v \<Rightarrow> Inr (dict_set cleaned ''price'' v)
           | Inl e \<Rightarrow>
               if e = ValueError \<or> e = TypeError
               then Inr (dict_set (dict_set cleaned ''price'' PNone) ''price_raw'' price)
               else Inl e))"

text \<open>\<^verbatim>\<open>for field in standard_fields: if field in data: cleaned[field] = data[field]\<close>\<close>

fun copy_standard_fields :: "string list \<Rightarrow> pydict \<Rightarrow> pydict \<Rightarrow> pydict" where
  "copy_standard_fields [] data cleaned = cleaned"
| "copy_standard_fields (field # rest) data cleaned =
     copy_standard_fields rest data
       (case dict_get data field of None \<Rightarrow> cleaned | Some v \<Rightarrow> dict_set cleaned field v)"

text \<open>
  \<^verbatim>\<open>for key, value in data.items(): if key not in cleaned and key not in ["url", "price"]:
  cleaned[f"raw_{key}"] = value\<close>
\<close>

fun copy_raw_fields :: "pydict \<Rightarrow> pydict \<Rightarrow> pydict" where
  "copy_raw_fields [] cleaned = cleaned"
| "copy_raw_fields ((key, val) # items) cleaned =
     copy_raw_fields items
       (if \<not> dict_has cleaned key \<and> key \<notin> set [''url'', ''price'']
        then dict_set cleaned (''raw_'' @ key) val else cleaned)"

text \<open>
  \<open>name\<close> is \<^verbatim>\<open>self.name\<close> and \<open>now\<close> is \<^verbatim>\<open>datetime.now().isoformat()\<close>.
\<close>

definition clean_data :: "string \<Rightarrow> string \<Rightarrow> pydict \<Rightarrow> py_error + pydict" where
  "clean_data name now data =
     (let cleaned = dict_set [] ''source'' (PStr name);
          cleaned = dict_set cleaned ''source_url''
                      (case dict_get data ''url'' of None \<Rightarrow> PStr [] | Some u \<Rightarrow> u);
          cleaned = dict_set cleaned ''scraped_at'' (PStr now)
      in case clean_price data cleaned of
           Inl e \<Rightarrow> Inl e
         | Inr cleaned \<Rightarrow> Inr (copy_raw_fields data (copy_standard_fields standard_fields data cleaned)))"

section \<open>Image resolver: \<^verbatim>\<open>process_images\<close>\<close>

text \<open>\<^verbatim>\<open>s.startswith(p)\<close> and \<^verbatim>\<open>sub in s\<close> on strings.\<close>

fun starts_with :: "string \<Rightarrow> string \<Rightarrow> bool" where
  "starts_with s [] = True"
| "starts_with [] (p # ps) = False"
| "starts_with (c # cs) (p # ps) = (c = p \<and> starts_with cs ps)"

fun contains :: "string \<Rightarrow> string \<Rightarrow> bool" where
  "contains [] sub = (sub = [])"
| "contains (c # cs) sub = (starts_with (c # cs) sub \<or> contains cs sub)"

text \<open>
  \<^verbatim>\<open>str.lower\<close> on the code points below 256: the letters \<open>A\<close> to \<open>Z\<close> and the accented
  capitals from 192 to 222, the multiplication sign 215 apart, move up by 32.
\<close>

definition lower_char :: "char \<Rightarrow> char" where
  "lower_char c =
     (let n = (of_char c :: nat)
      in if (65 \<le> n \<and> n \<le> 90) \<or> (192 \<le> n \<and> n \<le> 222 \<and> n \<noteq> 215) then char_of (n + 32)
         else c)"

definition lower :: "string \<Rightarrow> string" where
  "lower s = map lower_char s"

definition skip_patterns :: "string list" where
  "skip_patterns =
     [''loading'', ''icon_'', ''blank.png'', ''spacer'', ''.gif'',
      ''utility/loading'', ''icon_visited'', ''icon_sokunyu'']"

definition is_skipped :: "string \<Rightarrow> bool" where
  "is_skipped img_url = (\<exists>skip_pattern \<in> set skip_patterns. contains (lower img_url) skip_pattern)"

definition is_smallimg :: "string \<Rightarrow> bool" where
  "is_smallimg img_url = (contains img_url ''smallimg'' \<and> contains img_url ''file='')"

text \<open>
  \<^verbatim>\<open>for img_url in listing['images']\<close>: a list gives its items, a string its characters,
  anything else is not iterable.
\<close>

definition iterate :: "pyval \<Rightarrow> py_error + pyval list" where
  "iterate v =
     (case v of
        PList xs \<Rightarrow> Inr xs
      | PStr s \<Rightarrow> Inr (map (\<lambda>c. PStr [c]) s)
      | _ \<Rightarrow> Inl TypeError)"

text \<open>
  The first loop. \<^verbatim>\<open>img_url.lower()\<close> exists on strings only; an item that matches a skip
  pattern is passed over, and so is an empty or an already collected one.
\<close>

fun collect_images :: "pyval list \<Rightarrow> string list \<Rightarrow> py_error + string list" where
  "collect_images [] processed_images = Inr processed_images"
| "collect_images (item # items) processed_images =
     (case item of
        PStr img_url \<Rightarrow>
          if is_skipped img_url then collect_images items processed_images
          else if img_url \<noteq> [] \<and> img_url \<notin> set processed_images
          then collect_images items (processed_images @ [img_url])
          else collect_images items processed_images
      | _ \<Rightarrow> Inl AttributeError)"

text \<open>
  The second loop. \<open>file_values img_url\<close> stands for the library calls
  \<^verbatim>\<open>parse_qs(urlparse(img_url).query).get('file', [])\<close>, which may raise.
\<close>

fun original_images :: "(string \<Rightarrow> py_error + string list) \<Rightarrow> string list \<Rightarrow> py_error + string list" where
  "original_images file_values [] = Inr []"
| "original_images file_values (img_url # rest) =
     (if is_smallimg img_url then
        (case file_values img_url of
           Inl e \<Rightarrow> Inl e
         | Inr vals \<Rightarrow>
             (case original_images file_values rest of
                Inl e \<Rightarrow> Inl e
              | Inr high_res_images \<Rightarrow>
                  Inr ((case vals of [] \<Rightarrow> img_url | original_url # _ \<Rightarrow> original_url)
                        # high_res_images)))
      else (case original_images file_values rest of
              Inl e \<Rightarrow> Inl e
            | Inr high_res_images \<Rightarrow> Inr (img_url # high_res_images)))"

definition process_images :: "(string \<Rightarrow> py_error + string list) \<Rightarrow> pydict \<Rightarrow> py_error + pydict" where
  "process_images file_values listing =
     (case dict_get listing ''images'' of
        None \<Rightarrow> Inr listing
      | Some images \<Rightarrow>
          if \<not> truthy images then Inr listing
          else (case iterate images of
                  Inl e \<Rightarrow> Inl e
                | Inr items \<Rightarrow>
                    (case collect_images items [] of
                       Inl e \<Rightarrow> Inl e
                     | Inr processed_images \<Rightarrow>
                         (case original_images file_values processed_images of
                            Inl e \<Rightarrow> Inl e
                          | Inr high_res_images \<Rightarrow>
                              Inr (dict_set listing ''images''
                                     (PList (map PStr
                                        (if high_res_images \<noteq> [] then high_res_images
                                         else processed_images))))))))"

subsection \<open>The library calls on a plain URL\<close>

text \<open>
  What \<^verbatim>\<open>parse_qs(urlparse(url).query).get('file', [])\<close> gives for a plain URL: one of
  printable ASCII characters without space, brackets or semicolon, whose escapes \<open>%XX\<close>
  are all below \<open>%80\<close>. There the library raises nothing, \<^verbatim>\<open>urlparse(url).query\<close> is the
  text after the first \<open>?\<close> and before the first \<open>#\<close>, and \<^verbatim>\<open>parse_qs\<close> splits it at
  \<open>&\<close>, splits each piece at its first \<open>=\<close>, drops the pieces with no value, turns \<open>+\<close>
  into a space and decodes each escape to one character. On every other URL (a bracketed
  host that the library may reject, an escape that it decodes as UTF-8, white space that
  it strips) the answer is left to the parameter \<open>elsewhere\<close>.
\<close>

definition plain_char :: "char \<Rightarrow> bool" where
  "plain_char c =
     (33 \<le> (of_char c :: nat) \<and> (of_char c :: nat) \<le> 126 \<and> c \<notin> set ''[];'')"

definition plain_url :: "string \<Rightarrow> bool" where
  "plain_url url = list_all plain_char url"

definition url_query :: "string \<Rightarrow> string" where
  "url_query url =
     (let before_fragment = takeWhile (\<lambda>c. c \<noteq> CHR ''#'') url
      in drop 1 (dropWhile (\<lambda>c. c \<noteq> CHR ''?'') before_fragment))"

fun split_on :: "char \<Rightarrow> string \<Rightarrow> string list" where
  "split_on sep [] = [[]]"
| "split_on sep (c # cs) =
     (if c = sep then [] # split_on sep cs
      else (case split_on sep cs of [] \<Rightarrow> [[c]] | piece # pieces \<Rightarrow> (c # piece) # pieces))"

definition hex_value :: "char \<Rightarrow> nat option" where
  "hex_value c =
     (let n = (of_char c :: nat)
      in if 48 \<le> n \<and> n \<le> 57 then Some (n - 48)
         else if 65 \<le> n \<and> n \<le> 70 then Some (n - 55)
         else if 97 \<le> n \<and> n \<le> 102 then Some (n - 87)
         else None)"

text \<open>
  \<^verbatim>\<open>unquote\<close> where every escape is below \<open>%80\<close>; a \<open>%\<close> that no two hexadecimal digits
  follow stays as it is. No answer on a string with an escape from \<open>%80\<close> up.
\<close>

fun unquote :: "string \<Rightarrow> string option" where
  "unquote (c # h # l # cs) =
     (if c = CHR ''%'' then
        (case (hex_value h, hex_value l) of
           (Some a, Some b) \<Rightarrow>
             if 16 * a + b < 128 then map_option ((#) (char_of (16 * a + b))) (unquote cs) else None
         | _ \<Rightarrow> map_option ((#) c) (unquote (h # l # cs)))
      else map_option ((#) c) (unquote (h # l # cs)))"
| "unquote cs = Some cs"

definition unquote_plus :: "string \<Rightarrow> string option" where
  "unquote_plus s = unquote (map (\<lambda>c. if c = CHR ''+'' then CHR '' '' else c) s)"

fun parse_pairs :: "string list \<Rightarrow> (string \<times> string) list option" where
  "parse_pairs [] = Some []"
| "parse_pairs (name_value # rest) =
     (let name = takeWhile (\<lambda>c. c \<noteq> CHR ''='') name_value;
          val = drop 1 (dropWhile (\<lambda>c. c \<noteq> CHR ''='') name_value)
      in if val = [] then parse_pairs rest
         else (case (unquote_plus name, unquote_plus val, parse_pairs rest) of
                 (Some n, Some v, Some pairs) \<Rightarrow> Some ((n, v) # pairs)
               | _ \<Rightarrow> None))"

definition parse_qsl :: "string \<Rightarrow> (string \<times> string) list option" where
  "parse_qsl qs = parse_pairs (split_on CHR ''&'' qs)"

definition urllib_file_values ::
  "(string \<Rightarrow> py_error + string list) \<Rightarrow> string \<Rightarrow> py_error + string list" where
  "urllib_file_values elsewhere url =
     (if plain_url url then
        (case parse_qsl (url_query url) of
           Some pairs \<Rightarrow> Inr (map snd (filter (\<lambda>(name, val). name = ''file'') pairs))
         | None \<Rightarrow> elsewhere url)
      else elsewhere url)"

section \<open>Reconciliation: \<^verbatim>\<open>get_existing_listing_ids\<close> and the update-mode loop\<close>

text \<open>
  The three lookup dictionaries built from the stored rows. Lists cannot be dictionary keys,
  and \<^verbatim>\<open>True\<close> and \<^verbatim>\<open>1\<close> are the same key.
\<close>

record existing =
  source_id_dict :: "string \<rightharpoonup> bool"
  url_dict :: "pyval \<rightharpoonup> bool"
  id_by_source_id :: "string \<rightharpoonup> pyval"

definition no_existing :: existing where
  "no_existing = \<lparr>source_id_dict = Map.empty, url_dict = Map.empty, id_by_source_id = Map.empty\<rparr>"

definition hash_key :: "pyval \<Rightarrow> py_error + pyval" where
  "hash_key v =
     (case v of
        PList xs \<Rightarrow> Inl TypeError
      | PBool b \<Rightarrow> Inr (PInt (if b then 1 else 0))
      | _ \<Rightarrow> Inr v)"

text \<open>
  A replacement field of an f-string formats a string as itself; \<open>str_of\<close> stands for
  the built-in \<^verbatim>\<open>str\<close> on the other values.
\<close>

definition format_value :: "(pyval \<Rightarrow> string) \<Rightarrow> pyval \<Rightarrow> string" where
  "format_value str_of v = (case v of PStr s \<Rightarrow> s | _ \<Rightarrow> str_of v)"

text \<open>\<^verbatim>\<open>f"{listing['source']}:{listing['source_id']}"\<close>\<close>

definition source_key :: "(pyval \<Rightarrow> string) \<Rightarrow> pydict \<Rightarrow> py_error + string" where
  "source_key str_of listing =
     (case dict_get listing ''source'' of
        None \<Rightarrow> Inl KeyError
      | Some src \<Rightarrow>
          (case dict_get listing ''source_id'' of
             None \<Rightarrow> Inl KeyError
           | Some sid \<Rightarrow> Inr (format_value str_of src @ '':'' @ format_value str_of sid)))"

text \<open>\<^verbatim>\<open>d.get(k)\<close> used as a condition: a missing key counts as \<^verbatim>\<open>None\<close>.\<close>

definition get_truthy :: "pydict \<Rightarrow> string \<Rightarrow> bool" where
  "get_truthy d k = (case dict_get d k of None \<Rightarrow> False | Some v \<Rightarrow> truthy v)"

definition index_source_id :: "(pyval \<Rightarrow> string) \<Rightarrow> pydict \<Rightarrow> existing \<Rightarrow> py_error + existing" where
  "index_source_id str_of listing ex =
     (if get_truthy listing ''source_id'' then
        (case source_key str_of listing of
           Inl e \<Rightarrow> Inl e
         | Inr key \<Rightarrow>
             (case dict_get listing ''id'' of
                None \<Rightarrow> Inl KeyError
              | Some row_id \<Rightarrow>
                  Inr (ex\<lparr>source_id_dict := (source_id_dict ex)(key \<mapsto> True),
                          id_by_source_id := (id_by_source_id ex)(key \<mapsto> row_id)\<rparr>)))
      else Inr ex)"

definition index_url :: "pydict \<Rightarrow> existing \<Rightarrow> py_error + existing" where
  "index_url listing ex =
     (case dict_get listing ''url'' of
        None \<Rightarrow> Inr ex
      | Some url \<Rightarrow>
          if truthy url then
            (case hash_key url of
               Inl e \<Rightarrow> Inl e
             | Inr k \<Rightarrow> Inr (ex\<lparr>url_dict := (url_dict ex)(k \<mapsto> True)\<rparr>))
          else Inr ex)"

fun index_rows :: "(pyval \<Rightarrow> string) \<Rightarrow> pydict list \<Rightarrow> existing \<Rightarrow> py_error + existing" where
  "index_rows str_of [] ex = Inr ex"
| "index_rows str_of (listing # listings) ex =
     (case index_source_id str_of listing ex of
        Inl e \<Rightarrow> Inl e
      | Inr ex1 \<Rightarrow>
          (case index_url listing ex1 of
             Inl e \<Rightarrow> Inl e
           | Inr ex2 \<Rightarrow> index_rows str_of listings ex2))"

text \<open>
  \<open>response\<close> is what the query for \<^verbatim>\<open>id,source_id,source,url\<close> returns, or the exception
  it raises. Any exception gives the three empty dictionaries.
\<close>

definition get_existing_listing_ids :: "(pyval \<Rightarrow> string) \<Rightarrow> py_error + pydict list \<Rightarrow> existing" where
  "get_existing_listing_ids str_of response =
     (case response of
        Inl e \<Rightarrow> no_existing
      | Inr listings \<Rightarrow>
          (case index_rows str_of listings no_existing of
             Inl e \<Rightarrow> no_existing
           | Inr ex \<Rightarrow> ex))"

text \<open>
  The body of \<^verbatim>\<open>for listing in processed_results\<close> up to \<^verbatim>\<open>if is_duplicate\<close>: the
  result is \<^verbatim>\<open>(is_duplicate, listing_id)\<close>.
\<close>

definition check_source_id :: "(pyval \<Rightarrow> string) \<Rightarrow> existing \<Rightarrow> pydict \<Rightarrow> py_error + bool \<times> pyval" where
  "check_source_id str_of ex listing =
     (if get_truthy listing ''source_id'' then
        (case source_key str_of listing of
           Inl e \<Rightarrow> Inl e
         | Inr key \<Rightarrow>
             if source_id_dict ex key \<noteq> None
             then Inr (True, (case id_by_source_id ex key of None \<Rightarrow> PNone | Some row_id \<Rightarrow> row_id))
             else Inr (False, PNone))
      else Inr (False, PNone))"

definition check_url :: "existing \<Rightarrow> pydict \<Rightarrow> py_error + bool" where
  "check_url ex listing =
     (case dict_get listing ''url'' of
        None \<Rightarrow> Inr False
      | Some url \<Rightarrow>
          if truthy url then
            (case hash_key url of
               Inl e \<Rightarrow> Inl e
             | Inr k \<Rightarrow> Inr (url_dict ex k \<noteq> None))
          else Inr False)"

definition check_duplicate :: "(pyval \<Rightarrow> string) \<Rightarrow> existing \<Rightarrow> pydict \<Rightarrow> py_error + bool \<times> pyval" where
  "check_duplicate str_of ex listing =
     (case check_source_id str_of ex listing of
        Inl e \<Rightarrow> Inl e
      | Inr (is_duplicate, listing_id) \<Rightarrow>
          if \<not> is_duplicate then
            (case check_url ex listing of
               Inl e \<Rightarrow> Inl e
             | Inr url_known \<Rightarrow> Inr (url_known, listing_id))
          else Inr (is_duplicate, listing_id))"

text \<open>
  The state of the loop is \<^verbatim>\<open>new_listings\<close>, \<^verbatim>\<open>update_listings\<close> and the run's
  \<^verbatim>\<open>total_skipped\<close>. An exception ends the scraper's turn and keeps the count reached.
\<close>

record reconciled =
  new_listings :: "pydict list"
  update_listings :: "pydict list"
  total_skipped :: nat

definition reconcile_listing ::
  "(pyval \<Rightarrow> string) \<Rightarrow> bool \<Rightarrow> existing \<Rightarrow> pydict \<Rightarrow> reconciled \<Rightarrow> py_error \<times> nat + reconciled" where
  "reconcile_listing str_of update_existing ex listing st =
     (case check_duplicate str_of ex listing of
        Inl e \<Rightarrow> Inl (e, total_skipped st)
      | Inr (is_duplicate, listing_id) \<Rightarrow>
          if is_duplicate then
            if update_existing \<and> truthy listing_id
            then Inr (st\<lparr>update_listings := update_listings st @ [dict_set listing ''id'' listing_id]\<rparr>)
            else Inr (st\<lparr>total_skipped := total_skipped st + 1\<rparr>)
          else Inr (st\<lparr>new_listings := new_listings st @ [listing]\<rparr>))"

fun reconcile_loop ::
  "(pyval \<Rightarrow> string) \<Rightarrow> bool \<Rightarrow> existing \<Rightarrow> pydict list \<Rightarrow> reconciled \<Rightarrow> py_error \<times> nat + reconciled" where
  "reconcile_loop str_of update_existing ex [] st = Inr st"
| "reconcile_loop str_of update_existing ex (listing # rest) st =
     (case reconcile_listing str_of update_existing ex listing st of
        Inl e \<Rightarrow> Inl e
      | Inr st' \<Rightarrow> reconcile_loop str_of update_existing ex rest st')"

text \<open>
  \<^verbatim>\<open>if args.update_mode: ...; processed_results = new_listings\<close>. Without update mode
  the stored identities are never looked at and every listing goes on to the upload.
\<close>

definition reconcile ::
  "(pyval \<Rightarrow> string) \<Rightarrow> bool \<Rightarrow> bool \<Rightarrow> existing \<Rightarrow> pydict list \<Rightarrow> nat \<Rightarrow> py_error \<times> nat + reconciled" where
  "reconcile str_of update_mode update_existing ex processed_results skipped =
     (if update_mode
      then reconcile_loop str_of update_existing ex processed_results
             \<lparr>new_listings = [], update_listings = [], total_skipped = skipped\<rparr>
      else Inr \<lparr>new_listings = processed_results, update_listings = [], total_skipped = skipped\<rparr>)"

section \<open>Site extractors\<close>

text \<open>
  The extractors read a parsed document through the HTML library. What they use of one tag
  is its \<^verbatim>\<open>.text.strip()\<close>, its \<^verbatim>\<open>get_text(strip=True)\<close>, its attributes, whether
  \<^verbatim>\<open>find(string=price_pattern)\<close> finds a text node in it, and the tags
  \<^verbatim>\<open>select(selector)\<close> returns below it, in document order.
\<close>

datatype node =
  Node (text_strip: string) (get_text_strip: string) (attrs: "(string \<times> string) list")
       (finds_price: bool) (select: "string \<Rightarrow> node list")

definition select_one :: "node \<Rightarrow> string \<Rightarrow> node option" where
  "select_one element selector = (case select element selector of [] \<Rightarrow> None | e # _ \<Rightarrow> Some e)"

definition attr :: "node \<Rightarrow> string \<Rightarrow> string option" where
  "attr element name = map_of (attrs element) name"

definition ends_with :: "string \<Rightarrow> string \<Rightarrow> bool" where
  "ends_with s suffix = starts_with (rev s) (rev suffix)"

text \<open>\<^verbatim>\<open>e = element.select_one(selector); if e: listing_data[key] = e.text.strip()\<close>\<close>

definition set_text :: "pydict \<Rightarrow> string \<Rightarrow> node option \<Rightarrow> pydict" where
  "set_text listing_data key e =
     (case e of None \<Rightarrow> listing_data | Some n \<Rightarrow> dict_set listing_data key (PStr (text_strip n)))"

subsection \<open>\<^verbatim>\<open>HomesScraper._extract_listings\<close>, rental branch\<close>

text \<open>The thumbnails under \<^verbatim>\<open>.mainvisual img\<close> that are not loading images or icons.\<close>

fun homes_thumbnails :: "node list \<Rightarrow> string list" where
  "homes_thumbnails [] = []"
| "homes_thumbnails (img # imgs) =
     (case attr img ''data-src'' of
        Some img_src \<Rightarrow>
          if \<not> (ends_with img_src ''.gif'' \<or> contains img_src ''loading'' \<or> contains img_src ''icon'')
          then img_src # homes_thumbnails imgs else homes_thumbnails imgs
      | None \<Rightarrow>
          (case attr img ''src'' of
             Some src \<Rightarrow>
               if \<not> (ends_with src ''blank.png'' \<or> contains src ''.gif'' \<or> contains src ''loading''
                      \<or> contains src ''icon'')
               then src # homes_thumbnails imgs else homes_thumbnails imgs
           | None \<Rightarrow> homes_thumbnails imgs))"

text \<open>
  The record built for one listing element. \<open>urljoin\<close> is the library's, \<open>base_url\<close> is
  \<^verbatim>\<open>self.base_url\<close>, and \<open>fetch_high_res\<close> is \<^verbatim>\<open>self._fetch_high_res_images\<close>, which
  fetches another page and returns a list, empty on any failure.
\<close>

definition homes_rent_listing_data ::
  "(string \<Rightarrow> string \<Rightarrow> string) \<Rightarrow> string \<Rightarrow> (string \<Rightarrow> string list) \<Rightarrow> node \<Rightarrow> pydict" where
  \<open>homes_rent_listing_data urljoin base_url fetch_high_res element =
     (let url_element = select_one element ''h2.devMansionTitle a'';
          listing_data = dict_set [] ''url''
            (case url_element of
               None \<Rightarrow> PNone
             | Some a \<Rightarrow> (case attr a ''href'' of None \<Rightarrow> PNone | Some href \<Rightarrow> PStr (urljoin base_url href)));
          listing_data = set_text listing_data ''title'' url_element;
          listing_data = set_text listing_data ''price'' (select_one element ''.priceLabel'');
          listing_data = set_text listing_data ''initial_fees'' (select_one element ''.initialLabel'');
          listing_data = set_text listing_data ''location'' (select_one element ''.abAddress'');
          listing_data = set_text listing_data ''access'' (select_one element ''.abAccess'');
          listing_data = set_text listing_data ''layout'' (select_one element ''.madoriInfo'');
          listing_data = set_text listing_data ''size'' (select_one element ''.areaInfo'');
          features = map text_strip (select element ''ul.articleTagList li'');
          listing_data = (if features \<noteq> [] then dict_set listing_data ''features'' (PList (map PStr features))
                          else listing_data);
          detail_url = (case select_one element ''a[href*="detail"]'' of
                          None \<Rightarrow> None
                        | Some a \<Rightarrow> map_option (urljoin base_url) (attr a ''href''));
          listing_data = (case detail_url of
                            None \<Rightarrow> listing_data
                          | Some u \<Rightarrow> dict_set listing_data ''detail_url'' (PStr u));
          listing_data = dict_set listing_data ''images''
                           (PList (map PStr (homes_thumbnails (select element ''.mainvisual img''))))
      in case detail_url of
           None \<Rightarrow> listing_data
         | Some u \<Rightarrow>
             if u \<noteq> [] then
               (let high_res_images = fetch_high_res u
                in if high_res_images \<noteq> [] then dict_set listing_data ''images'' (PList (map PStr high_res_images))
                   else listing_data)
             else listing_data)\<close>

text \<open>
  \<^verbatim>\<open>cleaned_data = self.clean_data(listing_data); listings.append(cleaned_data)\<close>, inside
  a \<^verbatim>\<open>try\<close> that passes over an element on any exception.
\<close>

definition append_cleaned :: "string \<Rightarrow> string \<Rightarrow> pydict \<Rightarrow> pydict list" where
  "append_cleaned name now listing_data =
     (case clean_data name now listing_data of Inl e \<Rightarrow> [] | Inr cleaned_data \<Rightarrow> [cleaned_data])"

definition homes_extract_rent ::
  "string \<Rightarrow> string \<Rightarrow> (string \<Rightarrow> string \<Rightarrow> string) \<Rightarrow> string \<Rightarrow> (string \<Rightarrow> string list)
     \<Rightarrow> node list \<Rightarrow> pydict list" where
  "homes_extract_rent name now urljoin base_url fetch_high_res listing_elements =
     concat (map (\<lambda>element.
                    append_cleaned name now
                      (homes_rent_listing_data urljoin base_url fetch_high_res element))
                 listing_elements)"

subsection \<open>\<^verbatim>\<open>HomesScraper._fallback_extract_listings\<close>\<close>

text \<open>The first link whose \<^verbatim>\<open>href\<close> names a detail page.\<close>

fun fallback_url :: "(string \<Rightarrow> string \<Rightarrow> string) \<Rightarrow> string \<Rightarrow> node list \<Rightarrow> string option" where
  "fallback_url urljoin base_url [] = None"
| "fallback_url urljoin base_url (link # links) =
     (case attr link ''href'' of
        Some href \<Rightarrow>
          if href \<noteq> [] \<and> (contains href ''detail'' \<or> contains href ''property'' \<or> contains href ''bukken'')
          then Some (urljoin base_url href)
          else fallback_url urljoin base_url links
      | None \<Rightarrow> fallback_url urljoin base_url links)"

text \<open>\<^verbatim>\<open>img_src = img.get('src') or img.get('data-src')\<close>\<close>

definition src_or_data_src :: "node \<Rightarrow> string option" where
  "src_or_data_src img =
     (case attr img ''src'' of
        Some src \<Rightarrow> if src \<noteq> [] then Some src else attr img ''data-src''
      | None \<Rightarrow> attr img ''data-src'')"

fun fallback_images :: "node list \<Rightarrow> string list" where
  "fallback_images [] = []"
| "fallback_images (img # imgs) =
     (case src_or_data_src img of
        Some img_src \<Rightarrow>
          if img_src \<noteq> [] \<and> \<not> (ends_with img_src ''blank.png'' \<or> contains img_src ''spacer'')
          then img_src # fallback_images imgs else fallback_images imgs
      | None \<Rightarrow> fallback_images imgs)"

text \<open>
  The record built for one candidate container, or nothing when it has no detail link.
  \<open>price_search\<close> is \<^verbatim>\<open>price_pattern.search\<close> followed by \<^verbatim>\<open>group(0)\<close>.
\<close>

definition homes_fallback_listing_data ::
  "(string \<Rightarrow> string \<Rightarrow> string) \<Rightarrow> string \<Rightarrow> (string \<Rightarrow> string option) \<Rightarrow> node \<Rightarrow> pydict option" where
  \<open>homes_fallback_listing_data urljoin base_url price_search container =
     (case fallback_url urljoin base_url (select container ''a[href]'') of
        None \<Rightarrow> None
      | Some url \<Rightarrow>
          (let listing_data = dict_set [] ''url'' (PStr url);
               title_elements = select container ''h1, h2, h3, h4, strong, *[class*="title"]'';
               listing_data = (case title_elements of
                                 [] \<Rightarrow> listing_data
                               | e # _ \<Rightarrow> dict_set listing_data ''title'' (PStr (get_text_strip e)));
               price_elements = filter (\<lambda>el. finds_price el \<or> price_search (get_text_strip el) \<noteq> None)
                                  (select container ''*[class*="price"], span, div, p'');
               listing_data = (case price_elements of
                                 [] \<Rightarrow> listing_data
                               | e # _ \<Rightarrow>
                                   (case price_search (get_text_strip e) of
                                      None \<Rightarrow> listing_data
                                    | Some m \<Rightarrow> dict_set listing_data ''price'' (PStr m)));
               location_elements = select container ''*[class*="address"], *[class*="location"]'';
               listing_data = (case location_elements of
                                 [] \<Rightarrow> listing_data
                               | e # _ \<Rightarrow> dict_set listing_data ''location'' (PStr (get_text_strip e)));
               feature_elements = select container ''*[class*="feature"], *[class*="tag"], li'';
               listing_data = (if feature_elements \<noteq> []
                               then dict_set listing_data ''features''
                                      (PList (map (\<lambda>el. PStr (get_text_strip el)) (take 5 feature_elements)))
                               else listing_data)
           in Some (dict_set listing_data ''images''
                      (PList (map PStr (fallback_images (select container ''img'')))))))\<close>

text \<open>\<^verbatim>\<open>if "price" in listing_data or "title" in listing_data\<close>\<close>

definition homes_fallback_container ::
  "string \<Rightarrow> string \<Rightarrow> (string \<Rightarrow> string \<Rightarrow> string) \<Rightarrow> string \<Rightarrow> (string \<Rightarrow> string option) \<Rightarrow> node
     \<Rightarrow> pydict list" where
  "homes_fallback_container name now urljoin base_url price_search container =
     (case homes_fallback_listing_data urljoin base_url price_search container of
        None \<Rightarrow> []
      | Some listing_data \<Rightarrow>
          if dict_has listing_data ''price'' \<or> dict_has listing_data ''title''
          then append_cleaned name now listing_data else [])"

definition homes_fallback_extract ::
  "string \<Rightarrow> string \<Rightarrow> (string \<Rightarrow> string \<Rightarrow> string) \<Rightarrow> string \<Rightarrow> (string \<Rightarrow> string option)
     \<Rightarrow> node list \<Rightarrow> pydict list" where
  "homes_fallback_extract name now urljoin base_url price_search unique_containers =
     concat (map (homes_fallback_container name now urljoin base_url price_search) unique_containers)"

subsection \<open>\<^verbatim>\<open>AkiyaMartScraper._extract_listings\<close>\<close>

text \<open>
  A cascade: the first selector whose first match has non-empty text gives the value.
\<close>

fun first_text :: "node \<Rightarrow> string list \<Rightarrow> string option" where
  "first_text card_element [] = None"
| "first_text card_element (selector # selectors) =
     (case select_one card_element selector of
        Some e \<Rightarrow> if text_strip e \<noteq> [] then Some (text_strip e) else first_text card_element selectors
      | None \<Rightarrow> first_text card_element selectors)"

definition set_first_text :: "pydict \<Rightarrow> string \<Rightarrow> node \<Rightarrow> string list \<Rightarrow> pydict" where
  "set_first_text listing_data key card_element selectors =
     (case first_text card_element selectors of
        None \<Rightarrow> listing_data
      | Some t \<Rightarrow> dict_set listing_data key (PStr t))"

text \<open>The first details block that exists is searched for a size and for a room count.\<close>

fun akiya_details :: "pydict \<Rightarrow> node \<Rightarrow> string list \<Rightarrow> pydict" where
  "akiya_details listing_data card_element [] = listing_data"
| "akiya_details listing_data card_element (details_selector # selectors) =
     (case select_one card_element details_selector of
        Some details_element \<Rightarrow>
          set_first_text
            (set_first_text listing_data ''size'' details_element
               [''.property-size'', ''.size'', ''.sqm'', ''.area''])
            ''rooms'' details_element [''.property-rooms'', ''.rooms'', ''.bedroom-count'']
      | None \<Rightarrow> akiya_details listing_data card_element selectors)"

fun akiya_url :: "(string \<Rightarrow> string \<Rightarrow> string) \<Rightarrow> string \<Rightarrow> node \<Rightarrow> string list \<Rightarrow> string option" where
  "akiya_url urljoin base_url card_element [] = None"
| "akiya_url urljoin base_url card_element (link_selector # selectors) =
     (case select_one card_element link_selector of
        Some link_element \<Rightarrow>
          (case attr link_element ''href'' of
             Some href \<Rightarrow> Some (urljoin base_url href)
           | None \<Rightarrow> akiya_url urljoin base_url card_element selectors)
      | None \<Rightarrow> akiya_url urljoin base_url card_element selectors)"

text \<open>
  \<^verbatim>\<open>[img.get('src', img.get('data-src', '')) for img in image_elements
  if img.get('src') or img.get('data-src')]\<close>
\<close>

definition akiya_image :: "node \<Rightarrow> string list" where
  "akiya_image img =
     (if (case attr img ''src'' of Some s \<Rightarrow> s \<noteq> [] | None \<Rightarrow> False)
         \<or> (case attr img ''data-src'' of Some s \<Rightarrow> s \<noteq> [] | None \<Rightarrow> False)
      then [case attr img ''src'' of
              Some s \<Rightarrow> s
            | None \<Rightarrow> (case attr img ''data-src'' of Some s \<Rightarrow> s | None \<Rightarrow> [])]
      else [])"

fun akiya_images :: "pydict \<Rightarrow> node \<Rightarrow> string list \<Rightarrow> pydict" where
  "akiya_images listing_data card_element [] = listing_data"
| "akiya_images listing_data card_element (image_selector # selectors) =
     (case select card_element image_selector of
        [] \<Rightarrow> akiya_images listing_data card_element selectors
      | image_elements \<Rightarrow>
          dict_set listing_data ''images'' (PList (map PStr (concat (map akiya_image image_elements)))))"

definition akiya_listing_data :: "(string \<Rightarrow> string \<Rightarrow> string) \<Rightarrow> string \<Rightarrow> node \<Rightarrow> pydict" where
  "akiya_listing_data urljoin base_url card_element =
     (let listing_data = set_first_text [] ''title'' card_element
                           [''.property-title'', ''.listing-title'', ''h2'', ''h3'', ''.title''];
          listing_data = set_first_text listing_data ''price'' card_element
                           [''.property-price'', ''.price'', ''.listing-price'', ''.cost''];
          listing_data = set_first_text listing_data ''location'' card_element
                           [''.property-location'', ''.location'', ''.address'', ''.listing-address''];
          listing_data = akiya_details listing_data card_element
                           [''.property-details'', ''.details'', ''.specs'', ''.information''];
          listing_data = (case akiya_url urljoin base_url card_element
                                 [''a'', ''a.property-link'', ''.listing-link'', ''.card-link''] of
                            None \<Rightarrow> listing_data
                          | Some url \<Rightarrow> dict_set listing_data ''url'' (PStr url))
      in akiya_images listing_data card_element
           [''.property-image img'', ''img'', ''.thumbnail img'', ''.photo img''])"

text \<open>
  \<^verbatim>\<open>if listing_data.get("title") or listing_data.get("price") or
  listing_data.get("location")\<close>
\<close>

definition akiya_card :: "string \<Rightarrow> string \<Rightarrow> (string \<Rightarrow> string \<Rightarrow> string) \<Rightarrow> string \<Rightarrow> node \<Rightarrow> pydict list" where
  "akiya_card name now urljoin base_url card_element =
     (let listing_data = akiya_listing_data urljoin base_url card_element
      in if get_truthy listing_data ''title'' \<or> get_truthy listing_data ''price''
            \<or> get_truthy listing_data ''location''
         then append_cleaned name now listing_data else [])"

definition akiya_extract_listings ::
  "string \<Rightarrow> string \<Rightarrow> (string \<Rightarrow> string \<Rightarrow> string) \<Rightarrow> string \<Rightarrow> node list \<Rightarrow> pydict list" where
  "akiya_extract_listings name now urljoin base_url property_cards =
     concat (map (akiya_card name now urljoin base_url) property_cards)"

section \<open>Properties of the store gateway\<close>

lemma dict_has_iff: "dict_has d k \<longleftrightarrow> k \<in> set (dict_keys d)"
  by (simp add: dict_has_def dict_keys_def map_of_eq_None_iff)

lemma dict_keys_set: "set (dict_keys (dict_set d k v)) = insert k (set (dict_keys d))"
  by (simp add: dict_keys_def dict_set_def dom_update flip: dom_map_of_conv_image_fst)
     (simp add: update_conv' dom_map_of_conv_image_fst [symmetric])

lemma dict_set_same: "dict_get d k = Some v \<Longrightarrow> dict_set d k v = d"
  by (simp add: dict_get_def dict_set_def update_triv)

lemma pad_listing_keys: "set (dict_keys (pad_listing ks l)) = set ks \<union> set (dict_keys l)"
  by (induction ks arbitrary: l) (auto simp: dict_keys_set dict_has_iff)

lemma all_keys_set: "set (all_keys fl) = (\<Union>f \<in> set fl. set (dict_keys f))"
  by (simp add: all_keys_def)

lemma standardize_keys:
  "r \<in> set (standardize fl) \<Longrightarrow> set (dict_keys r) = (\<Union>f \<in> set fl. set (dict_keys f))"
  by (auto simp: standardize_def pad_listing_keys all_keys_set)

text \<open>
  What one run of the sending loop adds to the log: the calls carry the slices of 100 rows
  in order, each answered by the store as it stood then; every call but the last succeeded;
  the loop reports success exactly when it got through all the rows.
\<close>

lemma send_batches_calls:
  "send_batches upsert t rows i log = (ok, log') \<Longrightarrow>
     \<exists>calls. log' = log @ calls
       \<and> (\<forall>j < length calls. i + batch_size * j < length rows \<and>
             calls ! j = (t, take batch_size (drop (i + batch_size * j) rows),
                          upsert (log @ take j calls) t (take batch_size (drop (i + batch_size * j) rows))))
       \<and> (\<forall>j. Suc j < length calls \<longrightarrow> call_outcome (calls ! j) = UpsertOk)
       \<and> (ok \<longrightarrow> length rows \<le> i + batch_size * length calls
                 \<and> (\<forall>c \<in> set calls. call_outcome c = UpsertOk))
       \<and> (\<not> ok \<longrightarrow> calls \<noteq> [] \<and> call_outcome (last calls) \<noteq> UpsertOk)"
proof (induction upsert t rows i log arbitrary: ok log' rule: send_batches.induct)
  case (1 upsert t rows i log)
  show ?case
  proof (cases "i < length rows")
    case False
    with "1.prems" show ?thesis
      by (simp add: send_batches.simps [of upsert t rows i log])
  next
    case True
    let ?b = "take batch_size (drop i rows)"
    let ?o = "upsert log t ?b"
    let ?c = "(t, ?b, ?o)"
    show ?thesis
    proof (cases "?o = UpsertOk")
      case False
      with True "1.prems" have "log' = log @ [?c]" "\<not> ok"
        by (auto simp add: send_batches.simps [of upsert t rows i log] Let_def)
      with False True show ?thesis
        by (intro exI [of _ "[?c]"]) (simp add: call_outcome_def)
    next
      case good: True
      with True "1.prems" have "send_batches upsert t rows (i + batch_size) (log @ [?c]) = (ok, log')"
        by (simp add: send_batches.simps [of upsert t rows i log] Let_def)
      from "1.IH" [OF True refl refl good this] obtain calls where
        c1: "log' = (log @ [?c]) @ calls"
        and c3: "\<forall>j < length calls. i + batch_size + batch_size * j < length rows \<and>
             calls ! j = (t, take batch_size (drop (i + batch_size + batch_size * j) rows),
                          upsert ((log @ [?c]) @ take j calls) t
                            (take batch_size (drop (i + batch_size + batch_size * j) rows)))"
        and c4: "\<forall>j. Suc j < length calls \<longrightarrow> call_outcome (calls ! j) = UpsertOk"
        and c5: "ok \<longrightarrow> length rows \<le> i + batch_size + batch_size * length calls
                 \<and> (\<forall>c \<in> set calls. call_outcome c = UpsertOk)"
        and c6: "\<not> ok \<longrightarrow> calls \<noteq> [] \<and> call_outcome (last calls) \<noteq> UpsertOk"
        by blast
      have o: "call_outcome ?c = UpsertOk" using good by (simp add: call_outcome_def)
      show ?thesis
      proof (intro exI [of _ "?c # calls"] conjI)
        show "log' = log @ ?c # calls" using c1 by simp
        show "\<forall>j < length (?c # calls). i + batch_size * j < length rows \<and>
             (?c # calls) ! j = (t, take batch_size (drop (i + batch_size * j) rows),
                          upsert (log @ take j (?c # calls)) t (take batch_size (drop (i + batch_size * j) rows)))"
        proof (intro allI impI)
          fix j assume j: "j < length (?c # calls)"
          show "i + batch_size * j < length rows \<and>
             (?c # calls) ! j = (t, take batch_size (drop (i + batch_size * j) rows),
                          upsert (log @ take j (?c # calls)) t (take batch_size (drop (i + batch_size * j) rows)))"
          proof (cases j)
            case 0 with True show ?thesis by simp
          next
            case (Suc j')
            with j have "j' < length calls" by simp
            with c3 Suc show ?thesis by (simp add: add.assoc)
          qed
        qed
        show "\<forall>j. Suc j < length (?c # calls) \<longrightarrow> call_outcome ((?c # calls) ! j) = UpsertOk"
        proof (intro allI impI)
          fix j assume j: "Suc j < length (?c # calls)"
          show "call_outcome ((?c # calls) ! j) = UpsertOk"
            using j c4 o by (cases j) auto
        qed
        show "ok \<longrightarrow> length rows \<le> i + batch_size * length (?c # calls)
                 \<and> (\<forall>c \<in> set (?c # calls). call_outcome c = UpsertOk)"
          using c5 o by (simp add: add.assoc)
        show "\<not> ok \<longrightarrow> ?c # calls \<noteq> [] \<and> call_outcome (last (?c # calls)) \<noteq> UpsertOk"
          using c6 by simp
      qed
    qed
  qed
qed

lemma send_batches_rows:
  assumes "send_batches upsert t rows i log = (ok, log')"
  shows "set (rows_sent (drop (length log) log')) \<subseteq> set rows"
proof -
  from send_batches_calls [OF assms] obtain calls where
    c1: "log' = log @ calls"
    and c3: "\<forall>j < length calls. i + batch_size * j < length rows \<and>
             calls ! j = (t, take batch_size (drop (i + batch_size * j) rows),
                          upsert (log @ take j calls) t (take batch_size (drop (i + batch_size * j) rows)))"
    by blast
  have "set batch \<subseteq> set rows" if "(tn, batch, outcome) \<in> set calls" for tn batch outcome
  proof -
    from that obtain j where "j < length calls" "calls ! j = (tn, batch, outcome)"
      by (auto simp: in_set_conv_nth)
    with c3 have "batch = take batch_size (drop (i + batch_size * j) rows)" by auto
    then show ?thesis
      by (metis set_drop_subset set_take_subset subset_trans)
  qed
  with c1 show ?thesis by (auto simp: rows_sent_def)
qed

text \<open>
  Claim C8. After the whitelist filter and the padding with \<^verbatim>\<open>None\<close>, every row that
  \<^verbatim>\<open>save_listings\<close> transmits has the same set of keys, and that set is the union of the
  keys of all filtered rows of the batch.
\<close>

theorem save_listings_uniform_keys:
  assumes "save_listings self clock json_dumps listings table_name log = (ok, log')"
  shows "\<forall>row \<in> set (rows_sent (drop (length log) log')).
           set (dict_keys row) =
             (\<Union>f \<in> set (format_listings clock json_dumps 0 listings). set (dict_keys f))"
proof (cases "client self")
  case None
  with assms show ?thesis by (simp add: save_listings_def rows_sent_def)
next
  case (Some upsert)
  show ?thesis
  proof (cases "listings = []")
    case True
    with Some assms show ?thesis by (simp add: save_listings_def rows_sent_def)
  next
    case False
    with Some assms have "send_batches upsert table_name
        (standardize (format_listings clock json_dumps 0 listings)) 0 log = (ok, log')"
      by (simp add: save_listings_def)
    from send_batches_rows [OF this] show ?thesis
      by (auto simp: standardize_keys [OF subsetD])
  qed
qed

theorem save_listings_uniform_keys_witness:
  "save_listings \<lparr>client = Some (\<lambda>log t b. UpsertOk), using_service_role = True\<rparr>
     (\<lambda>i. ''t'') (\<lambda>v. ''[]'')
     [[(''title'', PStr ''a''), (''secret'', PInt 1)], [(''price'', PInt 5), (''images'', PList [])]]
     ''property_listings'' []
   = (True,
      [(''property_listings'',
        [[(''title'', PStr ''a''), (''created_at'', PStr ''t''), (''price'', PNone), (''images'', PNone)],
         [(''price'', PInt 5), (''images'', PStr ''[]''), (''created_at'', PStr ''t''), (''title'', PNone)]],
        UpsertOk)])
   \<and> format_listings (\<lambda>i. ''t'') (\<lambda>v. ''[]'') 0
        [[(''title'', PStr ''a''), (''secret'', PInt 1)], [(''price'', PInt 5), (''images'', PList [])]]
      = [[(''title'', PStr ''a''), (''created_at'', PStr ''t'')],
         [(''price'', PInt 5), (''images'', PStr ''[]''), (''created_at'', PStr ''t'')]]
   \<and> set (dict_keys [(''title'', PStr ''a''), (''created_at'', PStr ''t''), (''price'', PNone),
                      (''images'', PNone)])
      = {''title'', ''created_at'', ''price'', ''images''}
   \<and> set (dict_keys [(''price'', PInt 5), (''images'', PStr ''[]''), (''created_at'', PStr ''t''),
                      (''title'', PNone)])
      = {''title'', ''created_at'', ''price'', ''images''}"
proof -
  have run: "save_listings \<lparr>client = Some (\<lambda>log t b. UpsertOk), using_service_role = True\<rparr>
     (\<lambda>i. ''t'') (\<lambda>v. ''[]'')
     [[(''title'', PStr ''a''), (''secret'', PInt 1)], [(''price'', PInt 5), (''images'', PList [])]]
     ''property_listings'' []
   = (True,
      [(''property_listings'',
        [[(''title'', PStr ''a''), (''created_at'', PStr ''t''), (''price'', PNone), (''images'', PNone)],
         [(''price'', PInt 5), (''images'', PStr ''[]''), (''created_at'', PStr ''t''), (''title'', PNone)]],
        UpsertOk)])"
    by code_simp
  have fmt: "format_listings (\<lambda>i. ''t'') (\<lambda>v. ''[]'') 0
        [[(''title'', PStr ''a''), (''secret'', PInt 1)], [(''price'', PInt 5), (''images'', PList [])]]
      = [[(''title'', PStr ''a''), (''created_at'', PStr ''t'')],
         [(''price'', PInt 5), (''images'', PStr ''[]''), (''created_at'', PStr ''t'')]]"
    by code_simp
  show ?thesis
    using save_listings_uniform_keys [OF run] run
    unfolding fmt
    by (simp add: rows_sent_def dict_keys_def insert_commute)
qed

text \<open>
  Claim C9. \<^verbatim>\<open>save_listings\<close> sends the rows in consecutive slices of 100, one request
  after the other. Every request but the last one made has succeeded, so the first request
  that fails is the last: no later slice is sent, the call returns \<^verbatim>\<open>False\<close>, and the
  requests made before stay in the store's log, which only ever receives upserts. The call
  returns \<^verbatim>\<open>True\<close> exactly when all slices were sent and all succeeded.
\<close>

theorem save_listings_chunks:
  assumes "client self = Some upsert" and "listings \<noteq> []"
    and "save_listings self clock json_dumps listings table_name log = (ok, log')"
    and "rows = standardize (format_listings clock json_dumps 0 listings)"
  shows "\<exists>calls. log' = log @ calls
       \<and> (\<forall>j < length calls. 100 * j < length rows \<and>
             calls ! j = (table_name, take 100 (drop (100 * j) rows),
                          upsert (log @ take j calls) table_name (take 100 (drop (100 * j) rows))))
       \<and> (\<forall>j. Suc j < length calls \<longrightarrow> call_outcome (calls ! j) = UpsertOk)
       \<and> (ok \<longleftrightarrow> length rows \<le> 100 * length calls \<and> (\<forall>c \<in> set calls. call_outcome c = UpsertOk))
       \<and> (\<not> ok \<longrightarrow> calls \<noteq> [] \<and> call_outcome (last calls) \<noteq> UpsertOk)"
proof -
  from assms have "send_batches upsert table_name rows 0 log = (ok, log')"
    by (simp add: save_listings_def)
  from send_batches_calls [OF this] obtain calls where
    c1: "log' = log @ calls"
    and c3: "\<forall>j < length calls. 0 + batch_size * j < length rows \<and>
             calls ! j = (table_name, take batch_size (drop (0 + batch_size * j) rows),
                          upsert (log @ take j calls) table_name (take batch_size (drop (0 + batch_size * j) rows)))"
    and c4: "\<forall>j. Suc j < length calls \<longrightarrow> call_outcome (calls ! j) = UpsertOk"
    and c5: "ok \<longrightarrow> length rows \<le> 0 + batch_size * length calls
                 \<and> (\<forall>c \<in> set calls. call_outcome c = UpsertOk)"
    and c6: "\<not> ok \<longrightarrow> calls \<noteq> [] \<and> call_outcome (last calls) \<noteq> UpsertOk"
    by blast
  have "ok \<longleftrightarrow> length rows \<le> 100 * length calls \<and> (\<forall>c \<in> set calls. call_outcome c = UpsertOk)"
  proof (cases ok)
    case True
    with c5 show ?thesis by (simp add: batch_size_def)
  next
    case False
    with c6 have "calls \<noteq> []" "call_outcome (last calls) \<noteq> UpsertOk" by auto
    then have "\<not> (\<forall>c \<in> set calls. call_outcome c = UpsertOk)"
      using last_in_set by blast
    with False show ?thesis by simp
  qed
  with c1 c3 c4 c6 show ?thesis
    by (intro exI [of _ calls]) (simp add: batch_size_def)
qed

text \<open>
  An instance with 101 listings and a store that accepts the first request only: the
  second slice fails, the call returns \<^verbatim>\<open>False\<close>, and the first slice stays logged.
\<close>

theorem save_listings_chunks_witness:
  "save_listings
     \<lparr>client = Some (\<lambda>log t b. case log of [] \<Rightarrow> UpsertOk | _ \<Rightarrow> UpsertRaised),
      using_service_role = True\<rparr>
     (\<lambda>i. ''t'') (\<lambda>v. ''[]'') (replicate 101 [(''title'', PStr ''a'')]) ''property_listings'' []
   = (False,
      [(''property_listings'', replicate 100 [(''title'', PStr ''a''), (''created_at'', PStr ''t'')], UpsertOk),
       (''property_listings'', [[(''title'', PStr ''a''), (''created_at'', PStr ''t'')]], UpsertRaised)])
   \<and> (\<exists>calls.
        [(''property_listings'', replicate 100 [(''title'', PStr ''a''), (''created_at'', PStr ''t'')], UpsertOk),
         (''property_listings'', [[(''title'', PStr ''a''), (''created_at'', PStr ''t'')]], UpsertRaised)]
          = [] @ calls
      \<and> (\<forall>j < length calls.
            100 * j < length (standardize (format_listings (\<lambda>i. ''t'') (\<lambda>v. ''[]'') 0
                                (replicate 101 [(''title'', PStr ''a'')]))) \<and>
            calls ! j =
              (''property_listings'',
               take 100 (drop (100 * j) (standardize (format_listings (\<lambda>i. ''t'') (\<lambda>v. ''[]'') 0
                                           (replicate 101 [(''title'', PStr ''a'')])))),
               (case [] @ take j calls of [] \<Rightarrow> UpsertOk | _ \<Rightarrow> UpsertRaised)))
      \<and> (\<forall>j. Suc j < length calls \<longrightarrow> call_outcome (calls ! j) = UpsertOk)
      \<and> (False \<longleftrightarrow>
           length (standardize (format_listings (\<lambda>i. ''t'') (\<lambda>v. ''[]'') 0
                     (replicate 101 [(''title'', PStr ''a'')]))) \<le> 100 * length calls
           \<and> (\<forall>c \<in> set calls. call_outcome c = UpsertOk))
      \<and> (\<not> False \<longrightarrow> calls \<noteq> [] \<and> call_outcome (last calls) \<noteq> UpsertOk))"
proof -
  have run: "save_listings
     \<lparr>client = Some (\<lambda>log t b. case log of [] \<Rightarrow> UpsertOk | _ \<Rightarrow> UpsertRaised),
      using_service_role = True\<rparr>
     (\<lambda>i. ''t'') (\<lambda>v. ''[]'') (replicate 101 [(''title'', PStr ''a'')]) ''property_listings'' []
   = (False,
      [(''property_listings'', replicate 100 [(''title'', PStr ''a''), (''created_at'', PStr ''t'')], UpsertOk),
       (''property_listings'', [[(''title'', PStr ''a''), (''created_at'', PStr ''t'')]], UpsertRaised)])"
    by code_simp
  have ne: "replicate 101 [(''title'', PStr ''a'')] \<noteq> []" by simp
  have cl: "client \<lparr>client = Some (\<lambda>log t b. case log of [] \<Rightarrow> UpsertOk | _ \<Rightarrow> UpsertRaised),
      using_service_role = True\<rparr> = Some (\<lambda>log t b. case log of [] \<Rightarrow> UpsertOk | _ \<Rightarrow> UpsertRaised)"
    by simp
  from run save_listings_chunks [OF cl ne run refl] show ?thesis by (rule conjI)
qed

text \<open>
  Claim C10. With an empty list of listings \<^verbatim>\<open>save_listings\<close> sends nothing to the store
  and returns \<^verbatim>\<open>False\<close>, whatever the table name and whether or not a client is
  connected.
\<close>

theorem save_listings_empty:
  "save_listings self clock json_dumps [] table_name log = (False, log)"
  by (simp add: save_listings_def split: option.splits)

section \<open>Properties of the field normalizer\<close>

subsection \<open>The float conversion\<close>

lemma bit_length_bounds: "0 < n \<Longrightarrow> 2 ^ (bit_length n - 1) \<le> n \<and> n < 2 ^ bit_length n"
proof (induction n rule: bit_length.induct)
  case (1 n)
  show ?case
  proof (cases "n div 2 = 0")
    case True
    with "1.prems" have "n = 1" by (simp add: div_eq_0_iff)
    moreover have "bit_length (Suc 0) = Suc 0"
      by (simp add: bit_length.simps [of "Suc 0"] bit_length.simps [of 0])
    ultimately show ?thesis by simp
  next
    case False
    with "1.IH" "1.prems" have ih: "2 ^ (bit_length (n div 2) - 1) \<le> n div 2"
      "n div 2 < 2 ^ bit_length (n div 2)" by auto
    have bl: "bit_length n = Suc (bit_length (n div 2))"
      using "1.prems" by (simp add: bit_length.simps [of n])
    have pos: "0 < bit_length (n div 2)"
      using False by (simp add: bit_length.simps [of "n div 2"])
    have "2 * 2 ^ (bit_length (n div 2) - 1) \<le> n" using ih(1) by linarith
    moreover have "2 * 2 ^ (bit_length (n div 2) - 1) = (2::nat) ^ bit_length (n div 2)"
      using pos by (metis power_Suc Suc_pred')
    moreover have "n < 2 * 2 ^ bit_length (n div 2)" using ih(2) by linarith
    ultimately show ?thesis by (simp add: bl)
  qed
qed

lemma bit_length_pos: "0 < n \<Longrightarrow> 0 < bit_length n"
  by (simp add: bit_length.simps [of n])

lemma binary_exponent_lower:
  assumes "0 < n" and "0 < d"
  shows "(0 \<le> binary_exponent n d \<longrightarrow> d * 2 ^ nat (binary_exponent n d) \<le> n)
       \<and> (binary_exponent n d < 0 \<longrightarrow> d \<le> n * 2 ^ nat (- binary_exponent n d))"
proof (cases "d \<le> n")
  case True
  then have q: "0 < n div d" using assms by (simp add: div_greater_zero_iff)
  have e: "binary_exponent n d = int (bit_length (n div d)) - 1"
    using True by (simp add: binary_exponent_def)
  have "0 < bit_length (n div d)" using q by (rule bit_length_pos)
  then have ne: "nat (binary_exponent n d) = bit_length (n div d) - 1" and "0 \<le> binary_exponent n d"
    using e by auto
  have "2 ^ (bit_length (n div d) - 1) \<le> n div d" using bit_length_bounds [OF q] by simp
  then have "d * 2 ^ (bit_length (n div d) - 1) \<le> d * (n div d)" by simp
  also have "\<dots> \<le> n" by simp
  finally show ?thesis using ne \<open>0 \<le> binary_exponent n d\<close> by simp
next
  case False
  then have q: "0 < (d - 1) div n" using assms by (simp add: div_greater_zero_iff)
  have e: "binary_exponent n d = - int (bit_length ((d - 1) div n))"
    using False by (simp add: binary_exponent_def)
  have "0 < bit_length ((d - 1) div n)" using q by (rule bit_length_pos)
  then have neg: "binary_exponent n d < 0" and ne: "nat (- binary_exponent n d) = bit_length ((d - 1) div n)"
    using e by auto
  have "(d - 1) div n < 2 ^ bit_length ((d - 1) div n)" using bit_length_bounds [OF q] by simp
  then have "d - 1 < 2 ^ bit_length ((d - 1) div n) * n"
    using assms by (simp add: less_mult_imp_div_less div_less_iff_less_mult)
  then have "d \<le> n * 2 ^ bit_length ((d - 1) div n)" by (simp add: mult.commute)
  then show ?thesis using neg ne by simp
qed

text \<open>The exponent is not too small either: \<open>n / d < 2 ^ (e + 1)\<close>.\<close>

lemma binary_exponent_upper:
  assumes "0 < n" and "0 < d"
  shows "(0 \<le> binary_exponent n d \<longrightarrow> n < d * 2 ^ nat (binary_exponent n d + 1))
       \<and> (binary_exponent n d < 0 \<longrightarrow> n * 2 ^ nat (- binary_exponent n d - 1) < d)"
proof (cases "d \<le> n")
  case True
  then have q: "0 < n div d" using assms by (simp add: div_greater_zero_iff)
  have e: "binary_exponent n d = int (bit_length (n div d)) - 1"
    using True by (simp add: binary_exponent_def)
  have "0 < bit_length (n div d)" using q by (rule bit_length_pos)
  then have ne: "nat (binary_exponent n d + 1) = bit_length (n div d)" and "0 \<le> binary_exponent n d"
    using e by auto
  have "n div d < 2 ^ bit_length (n div d)" using bit_length_bounds [OF q] by simp
  then have "n < 2 ^ bit_length (n div d) * d"
    using assms by (simp add: div_less_iff_less_mult)
  then show ?thesis using ne \<open>0 \<le> binary_exponent n d\<close> by (simp add: mult.commute)
next
  case False
  then have q: "0 < (d - 1) div n" using assms by (simp add: div_greater_zero_iff)
  have e: "binary_exponent n d = - int (bit_length ((d - 1) div n))"
    using False by (simp add: binary_exponent_def)
  have "0 < bit_length ((d - 1) div n)" using q by (rule bit_length_pos)
  then have neg: "binary_exponent n d < 0"
    and ne: "nat (- binary_exponent n d - 1) = bit_length ((d - 1) div n) - 1"
    using e by auto
  have "2 ^ (bit_length ((d - 1) div n) - 1) \<le> (d - 1) div n" using bit_length_bounds [OF q] by simp
  then have "2 ^ (bit_length ((d - 1) div n) - 1) * n \<le> (d - 1) div n * n" by (rule mult_le_mono1)
  also have "\<dots> \<le> d - 1" by simp
  finally have "n * 2 ^ (bit_length ((d - 1) div n) - 1) < d"
    using assms by (simp add: mult.commute)
  then show ?thesis using neg ne by simp
qed

lemma round_half_even_upper: "0 < b \<Longrightarrow> 2 * (round_half_even a b * b) \<le> 2 * a + b"
proof -
  assume b: "0 < b"
  have a: "a = a div b * b + a mod b" by simp
  show ?thesis
  proof (cases "2 * (a mod b) < b")
    case True
    then have "2 * (round_half_even a b * b) = 2 * (a div b * b)"
      by (simp add: round_half_even_def Let_def)
    also have "\<dots> \<le> 2 * a" by simp
    also have "\<dots> \<le> 2 * a + b" by simp
    finally show ?thesis .
  next
    case False
    then have le: "round_half_even a b \<le> a div b + 1" by (simp add: round_half_even_def Let_def)
    have "2 * ((a div b + 1) * b) = 2 * (a div b * b) + 2 * b" by (simp add: algebra_simps)
    also have "\<dots> \<le> 2 * (a div b * b) + 2 * (a mod b) + b" using False by simp
    also have "\<dots> = 2 * a + b" using a by (metis add_mult_distrib2)
    finally have "2 * ((a div b + 1) * b) \<le> 2 * a + b" .
    moreover have "2 * (round_half_even a b * b) \<le> 2 * ((a div b + 1) * b)"
      by (rule mult_le_mono2 [OF mult_le_mono1 [OF le]])
    ultimately show ?thesis by linarith
  qed
qed

text \<open>The rounded quotient is within half a unit of \<open>a / b\<close> from below as well.\<close>

lemma round_half_even_near: "0 < b \<Longrightarrow> 2 * a \<le> 2 * (round_half_even a b * b) + b"
proof -
  assume b: "0 < b"
  have a: "a = a div b * b + a mod b" by simp
  show ?thesis
  proof (cases "2 * (a mod b) \<le> b")
    case True
    have "a div b \<le> round_half_even a b" by (simp add: round_half_even_def Let_def)
    then have "a div b * b \<le> round_half_even a b * b" by (rule mult_le_mono1)
    moreover have "2 * a = 2 * (a div b * b) + 2 * (a mod b)" using a by (metis add_mult_distrib2)
    ultimately show ?thesis using True by linarith
  next
    case False
    then have "round_half_even a b = a div b + 1" by (simp add: round_half_even_def Let_def)
    then have "round_half_even a b * b = a div b * b + b" by (simp add: algebra_simps)
    moreover have "a mod b < b" using b by simp
    moreover have "2 * a = 2 * (a div b * b) + 2 * (a mod b)" using a by (metis add_mult_distrib2)
    ultimately show ?thesis by linarith
  qed
qed

lemma round_half_even_one: "round_half_even a (Suc 0) = a"
  by (simp add: round_half_even_def)

lemma float_to_int_coarse:
  assumes n: "0 < n" and d: "0 < d"
    and p: "0 \<le> max (binary_exponent n d) (- 1022) - 52"
  shows "2 * (round_half_even n (d * 2 ^ nat (max (binary_exponent n d) (- 1022) - 52))
              * 2 ^ nat (max (binary_exponent n d) (- 1022) - 52) * d) \<le> 3 * n"
proof -
  let ?e = "binary_exponent n d"
  let ?k = "nat (max ?e (- 1022) - 52)"
  let ?m = "round_half_even n (d * 2 ^ ?k)"
  from p have e: "52 \<le> ?e" by simp
  then have k: "?k \<le> nat ?e" by simp
  from e binary_exponent_lower [OF n d] have "d * 2 ^ nat ?e \<le> n" by simp
  moreover have "d * 2 ^ ?k \<le> d * 2 ^ nat ?e"
    using k by (simp add: power_increasing)
  ultimately have small: "d * 2 ^ ?k \<le> n" by linarith
  have "0 < d * 2 ^ ?k" using d by simp
  from round_half_even_upper [OF this, of n]
  have "2 * (?m * (d * 2 ^ ?k)) \<le> 2 * n + d * 2 ^ ?k" .
  with small have le: "2 * (?m * (d * 2 ^ ?k)) \<le> 3 * n" by linarith
  have eq: "?m * 2 ^ ?k * d = ?m * (d * 2 ^ ?k)" by (simp add: mult_ac)
  show ?thesis unfolding eq by (rule le)
qed

lemma float_to_int_overflow:
  assumes d: "0 < d" and r: "float_to_int n d = Inl e"
  shows "e = OverflowError \<and> 2 ^ 1023 \<le> n"
proof -
  let ?p = "max (binary_exponent n d) (- 1022) - 52"
  let ?m = "round_half_even n (d * 2 ^ nat ?p)"
  from r have n: "0 < n" by (cases "n = 0") (simp_all add: float_to_int_def)
  from r n have p: "0 \<le> ?p" and big: "2 ^ 1024 \<le> ?m * 2 ^ nat ?p" and e: "e = OverflowError"
    by (auto simp: float_to_int_def Let_def split: if_splits)
  from float_to_int_coarse [OF n d p] have "2 * (?m * 2 ^ nat ?p * d) \<le> 3 * n" .
  moreover have "?m * 2 ^ nat ?p \<le> ?m * 2 ^ nat ?p * d" using d by simp
  ultimately have "2 * (?m * 2 ^ nat ?p) \<le> 3 * n" by linarith
  with big have "2 * 2 ^ 1024 \<le> 3 * n" by linarith
  moreover have "(2::nat) ^ 1024 = 2 * 2 ^ 1023" by simp
  ultimately have "2 ^ 1023 \<le> n" by linarith
  with e show ?thesis by simp
qed

lemma no_room: "0 < d \<Longrightarrow> 0 < B \<Longrightarrow> \<not> 2 * ((A + B) * d) \<le> 2 * A + (d::nat)"
proof
  assume d: "0 < d" and B: "0 < B" and le: "2 * ((A + B) * d) \<le> 2 * A + d"
  have "A \<le> A * d" using d by simp
  moreover have "d \<le> B * d" using B by simp
  moreover have "(A + B) * d = A * d + B * d" by (simp add: algebra_simps)
  ultimately show False using le d by linarith
qed

lemma float_to_int_le:
  assumes d: "2 \<le> d" and r: "float_to_int n d = Inr r"
  shows "0 \<le> r \<and> r \<le> int n"
proof (cases "n = 0")
  case True
  with r show ?thesis by (simp add: float_to_int_def)
next
  case False
  then have n: "0 < n" by simp
  from d have d0: "0 < d" by simp
  let ?p = "max (binary_exponent n d) (- 1022) - 52"
  show ?thesis
  proof (cases "0 \<le> ?p")
    case True
    let ?m = "round_half_even n (d * 2 ^ nat ?p)"
    from r n True have rv: "r = int (?m * 2 ^ nat ?p)"
      by (auto simp: float_to_int_def Let_def split: if_splits)
    from float_to_int_coarse [OF n d0 True] have "2 * (?m * 2 ^ nat ?p * d) \<le> 3 * n" .
    moreover have "?m * 2 ^ nat ?p * 2 \<le> ?m * 2 ^ nat ?p * d"
      using d by (rule mult_le_mono2)
    ultimately have "?m * 2 ^ nat ?p \<le> n" by linarith
    then show ?thesis by (simp only: rv of_nat_le_iff of_nat_0_le_iff simp_thms)
  next
    case neg: False
    let ?k = "nat (- ?p)"
    let ?m = "round_half_even (n * 2 ^ ?k) d"
    from r n neg have rv: "r = int (?m div 2 ^ ?k)"
      by (auto simp: float_to_int_def Let_def split: if_splits)
    have "?m div 2 ^ ?k \<le> n"
    proof (rule ccontr)
      assume "\<not> ?m div 2 ^ ?k \<le> n"
      then have "Suc n \<le> ?m div 2 ^ ?k" by simp
      then have "Suc n * 2 ^ ?k \<le> ?m div 2 ^ ?k * 2 ^ ?k" by (rule mult_le_mono1)
      also have "\<dots> \<le> ?m" by simp
      finally have "Suc n * 2 ^ ?k * d \<le> ?m * d" by (rule mult_le_mono1)
      moreover from round_half_even_upper [OF d0, of "n * 2 ^ ?k"]
      have "2 * (?m * d) \<le> 2 * (n * 2 ^ ?k) + d" .
      ultimately have "2 * (Suc n * 2 ^ ?k * d) \<le> 2 * (n * 2 ^ ?k) + d" by linarith
      moreover have "Suc n * 2 ^ ?k = n * 2 ^ ?k + 2 ^ ?k" by simp
      ultimately have "2 * ((n * 2 ^ ?k + 2 ^ ?k) * d) \<le> 2 * (n * 2 ^ ?k) + d"
        by (simp add: add.commute)
      with no_room [OF d0, of "2 ^ ?k" "n * 2 ^ ?k"] show False by simp
    qed
    then show ?thesis by (simp only: rv of_nat_le_iff of_nat_0_le_iff simp_thms)
  qed
qed

lemma float_to_int_nonneg: "float_to_int n d = Inr r \<Longrightarrow> 0 \<le> r"
  by (auto simp: float_to_int_def Let_def split: if_splits)

lemma float_to_int_exact:
  assumes "n < 2 ^ 53"
  shows "float_to_int n 1 = Inr (int n)"
proof (cases "n = 0")
  case True
  then show ?thesis by (simp add: float_to_int_def)
next
  case False
  then have n: "0 < n" by simp
  let ?e = "binary_exponent n 1"
  let ?p = "max ?e (- 1022) - 52"
  have e: "?e = int (bit_length n) - 1" using n by (simp add: binary_exponent_def)
  from bit_length_bounds [OF n] assms have "(2::nat) ^ (bit_length n - 1) < 2 ^ 53" by linarith
  then have "bit_length n - 1 < 53" by (simp only: power_strict_increasing_iff)
  with e have p: "?p \<le> 0" by simp
  show ?thesis
  proof (cases "?p = 0")
    case True
    with n assms show ?thesis
      by (simp add: float_to_int_def Let_def round_half_even_one)
  next
    case False
    with p have "?p < 0" by simp
    with n show ?thesis
      by (simp add: float_to_int_def Let_def round_half_even_one)
  qed
qed

lemma round_half_even_lower: "a div b \<le> round_half_even a b"
  by (simp add: round_half_even_def Let_def)

lemma float_to_int_big:
  assumes "2 ^ 1024 \<le> n"
  shows "float_to_int n (Suc 0) = Inl OverflowError"
proof -
  from assms have n: "0 < n" by (simp add: less_le_trans [of 0 "2 ^ 1024"])
  let ?e = "binary_exponent n (Suc 0)"
  let ?p = "max ?e (- 1022) - 52"
  let ?m = "round_half_even n (Suc 0 * 2 ^ nat ?p)"
  have e: "?e = int (bit_length n) - 1" using n by (simp add: binary_exponent_def)
  from bit_length_bounds [OF n] assms have "(2::nat) ^ 1024 < 2 ^ bit_length n" by linarith
  then have "1024 < bit_length n" by (simp only: power_strict_increasing_iff)
  with e have e1024: "1024 \<le> ?e" by simp
  then have p: "0 \<le> ?p" and pe: "nat ?e = 52 + nat ?p" by simp_all
  have split: "(2::nat) ^ nat ?e = 2 ^ 52 * 2 ^ nat ?p" by (simp only: pe power_add)
  from binary_exponent_lower [OF n, of "Suc 0"] e1024 have low: "2 ^ nat ?e \<le> n" by simp
  have cancel: "(2::nat) ^ 52 * 2 ^ nat ?p div 2 ^ nat ?p = 2 ^ 52"
    by (rule nonzero_mult_div_cancel_right) simp
  have "(2::nat) ^ 52 * 2 ^ nat ?p div 2 ^ nat ?p \<le> n div 2 ^ nat ?p"
    using low unfolding split by (rule div_le_mono)
  then have "(2::nat) ^ 52 \<le> n div 2 ^ nat ?p" unfolding cancel .
  also have "\<dots> \<le> ?m" by (simp add: round_half_even_lower)
  finally have "(2::nat) ^ 52 * 2 ^ nat ?p \<le> ?m * 2 ^ nat ?p"
    by (rule mult_le_mono1)
  moreover have "(2::nat) ^ 1024 \<le> 2 ^ nat ?e" using e1024 by (intro power_increasing) simp_all
  ultimately have "2 ^ 1024 \<le> ?m * 2 ^ nat ?p" unfolding split by (rule order_trans [rotated])
  with n p show ?thesis by (simp add: float_to_int_def Let_def)
qed

subsection \<open>Price strings\<close>

lemma point_not_decimal: "\<not> is_decimal unicode_decimal point"
  by (simp add: is_decimal_def decimal_digit_def point_def)

lemma digit_values_append:
  "digit_values unicode_decimal (xs @ ys) = digit_values unicode_decimal xs @ digit_values unicode_decimal ys"
  by (induction xs) (simp_all split: option.splits)

lemma digit_values_point: "digit_values unicode_decimal (point # cs) = digit_values unicode_decimal cs"
  using point_not_decimal [of unicode_decimal] by (simp add: is_decimal_def)

lemma digit_values_kept:
  "digit_values unicode_decimal (filter (\<lambda>c. is_decimal unicode_decimal c \<or> c = point) s)
     = digit_values unicode_decimal s"
  by (induction s) (auto simp: is_decimal_def digit_values_point split: option.splits)

lemma digit_values_length:
  "\<forall>c \<in> set cs. is_decimal unicode_decimal c \<Longrightarrow> length (digit_values unicode_decimal cs) = length cs"
  by (induction cs) (auto simp: is_decimal_def split: option.splits)

lemma filter_points_kept:
  "filter (\<lambda>c. c = point) (filter (\<lambda>c. is_decimal unicode_decimal c \<or> c = point) s)
     = filter (\<lambda>c. c = point) s"
  by (induction s) auto

lemma dropWhile_kept:
  "dropWhile (\<lambda>c. c \<noteq> point) (filter (\<lambda>c. is_decimal unicode_decimal c \<or> c = point) s)
     = filter (\<lambda>c. is_decimal unicode_decimal c \<or> c = point) (dropWhile (\<lambda>c. c \<noteq> point) s)"
  by (induction s) auto

text \<open>A string of digits and points, cut at its first point.\<close>

lemma numeric_str_parts:
  assumes "\<forall>c \<in> set t. is_decimal unicode_decimal c \<or> c = point"
  defines "ip \<equiv> takeWhile (\<lambda>c. c \<noteq> point) t"
    and "fp \<equiv> drop 1 (dropWhile (\<lambda>c. c \<noteq> point) t)"
  shows "digit_values unicode_decimal t = digit_values unicode_decimal (ip @ fp)"
    and "length (filter (\<lambda>c. c = point) t) \<le> 1 \<longleftrightarrow> point \<notin> set fp"
    and "point \<notin> set fp \<Longrightarrow> length (digit_values unicode_decimal fp) = length fp"
    and "digit_values unicode_decimal (dropWhile (\<lambda>c. c \<noteq> point) t) = digit_values unicode_decimal fp"
    and "length (digit_values unicode_decimal ip) = length ip"
proof -
  let ?rest = "dropWhile (\<lambda>c. c \<noteq> point) t"
  let ?dv = "digit_values unicode_decimal"
  have t: "t = ip @ ?rest" by (simp add: ip_def)
  have "\<forall>c \<in> set ip. is_decimal unicode_decimal c"
    using assms(1) unfolding ip_def by (auto dest: set_takeWhileD)
  then show "length (?dv ip) = length ip" by (rule digit_values_length)
  have ipp: "filter (\<lambda>c. c = point) ip = []"
    unfolding ip_def by (auto simp: filter_empty_conv dest: set_takeWhileD)
  have rest: "?rest = [] \<or> ?rest = point # fp"
  proof (cases ?rest)
    case Nil then show ?thesis by simp
  next
    case (Cons c cs)
    then have "c = point" using hd_dropWhile [of "\<lambda>c. c \<noteq> point" t] by simp
    with Cons show ?thesis by (simp add: fp_def)
  qed
  have fpset: "set fp \<subseteq> set t"
    unfolding fp_def by (auto dest: in_set_dropD set_dropWhileD)
  show frac: "?dv ?rest = ?dv fp"
  proof (cases "?rest = []")
    case True show ?thesis unfolding fp_def True by simp
  next
    case False
    with rest have "?rest = point # fp" by blast
    then show ?thesis by (simp only: digit_values_point)
  qed
  have "?dv t = ?dv ip @ ?dv ?rest"
    by (subst t) (simp only: digit_values_append)
  with frac show "?dv t = ?dv (ip @ fp)"
    by (simp only: digit_values_append)
  have "filter (\<lambda>c. c = point) t = filter (\<lambda>c. c = point) ip @ filter (\<lambda>c. c = point) ?rest"
    by (subst t) (simp only: filter_append)
  with ipp have "length (filter (\<lambda>c. c = point) t) = length (filter (\<lambda>c. c = point) ?rest)"
    by simp
  moreover have "length (filter (\<lambda>c. c = point) ?rest) \<le> 1 \<longleftrightarrow> point \<notin> set fp"
  proof (cases "?rest = []")
    case True show ?thesis unfolding fp_def True by simp
  next
    case False
    with rest have "?rest = point # fp" by blast
    then have "length (filter (\<lambda>c. c = point) ?rest) = Suc (length (filter (\<lambda>c. c = point) fp))"
      by (simp only: filter.simps if_True list.size(4)) simp
    then show ?thesis by (auto simp: filter_empty_conv)
  qed
  ultimately show "length (filter (\<lambda>c. c = point) t) \<le> 1 \<longleftrightarrow> point \<notin> set fp"
    by simp
  show "length (?dv fp) = length fp" if "point \<notin> set fp"
  proof -
    have "\<forall>c \<in> set fp. is_decimal unicode_decimal c" using that fpset assms(1) by blast
    then show ?thesis by (rule digit_values_length)
  qed
qed

lemma extract_numeric_price_cases:
  "extract_numeric_price_str unicode_decimal s =
     (if digit_values unicode_decimal s = [] \<or> 2 \<le> length (filter (\<lambda>c. c = point) s) then Inr PNone
      else case float_to_int (digits_value (digit_values unicode_decimal s))
                  (10 ^ length (digit_values unicode_decimal (dropWhile (\<lambda>c. c \<noteq> point) s))) of
             Inr n \<Rightarrow> Inr (PInt n)
           | Inl e \<Rightarrow> Inl e)"
proof -
  let ?dv = "digit_values unicode_decimal"
  let ?t = "filter (\<lambda>c. is_decimal unicode_decimal c \<or> c = point) s"
  let ?ip = "takeWhile (\<lambda>c. c \<noteq> point) ?t"
  let ?fp = "drop 1 (dropWhile (\<lambda>c. c \<noteq> point) ?t)"
  have kept: "\<forall>c \<in> set ?t. is_decimal unicode_decimal c \<or> c = point" by simp
  note parts = numeric_str_parts [OF kept]
  have digits: "?dv s = ?dv (?ip @ ?fp)"
    using parts(1) by (simp only: digit_values_kept)
  have points: "length (filter (\<lambda>c. c = point) s) \<le> 1 \<longleftrightarrow> point \<notin> set ?fp"
    using parts(2) by (simp only: filter_points_kept)
  have frac: "?dv (dropWhile (\<lambda>c. c \<noteq> point) s) = ?dv ?fp"
    using parts(4) by (simp only: dropWhile_kept digit_values_kept)
  have ovf: "float_to_int n d \<noteq> Inl ValueError" for n d
    by (auto simp: float_to_int_def Let_def)
  show ?thesis
  proof (cases "point \<in> set ?fp")
    case True
    then have "?t \<noteq> []" by auto
    moreover from True points have "2 \<le> length (filter (\<lambda>c. c = point) s)" by simp
    ultimately show ?thesis using True
      by (simp add: extract_numeric_price_str_def int_of_float_str_def Let_def)
  next
    case False
    then have fp: "length (?dv ?fp) = length ?fp" by (rule parts(3))
    have ip: "length (?dv ?ip) = length ?ip" by (rule parts(5))
    from False points have one: "\<not> 2 \<le> length (filter (\<lambda>c. c = point) s)" by simp
    have len: "length (?dv s) = length ?ip + length ?fp"
      unfolding digits digit_values_append using fp ip by simp
    show ?thesis
    proof (cases "?ip = [] \<and> ?fp = []")
      case True
      with len have "?dv s = []" by simp
      with True False show ?thesis
        by (simp add: extract_numeric_price_str_def int_of_float_str_def Let_def)
    next
      case nonempty: False
      with len have ne: "?dv s \<noteq> []" by auto
      then have tne: "?t \<noteq> []" by (metis digit_values_kept digit_values.simps(1))
      have "extract_numeric_price_str unicode_decimal s =
          (case float_to_int (digits_value (?dv (?ip @ ?fp))) (10 ^ length ?fp) of
             Inr n \<Rightarrow> Inr (PInt n) | Inl e \<Rightarrow> Inl e)"
        using tne False nonempty ovf [of "digits_value (?dv (?ip @ ?fp))" "10 ^ length ?fp"]
        by (auto simp add: extract_numeric_price_str_def int_of_float_str_def Let_def
            split: sum.splits py_error.splits)
      also have "?dv (?ip @ ?fp) = ?dv s" using digits by simp
      also have "length ?fp = length (?dv (dropWhile (\<lambda>c. c \<noteq> point) s))"
        using frac fp by simp
      finally show ?thesis using ne one by simp
    qed
  qed
qed

text \<open>
  Claim C3, as the code has it. For every raw price string \<open>s\<close>, whatever code points it
  holds and whatever the Unicode table of decimal digits is, with \<open>N\<close> the number that the
  decimal digits of \<open>s\<close> form when read in order: the price is \<^verbatim>\<open>None\<close> exactly when \<open>s\<close>
  has no decimal digit or has more than one decimal point. Otherwise, for \<open>N\<close> below
  \<open>2 ^ 1023\<close>, the price is an integer. A price that is an integer is never negative, it is
  at most \<open>N\<close> whenever a digit follows the decimal point, and it equals \<open>N\<close> when no digit
  follows a point and \<open>N < 2 ^ 53\<close>.
\<close>

theorem extract_numeric_price_string:
  "(extract_numeric_price_str unicode_decimal s = Inr PNone \<longleftrightarrow>
      digit_values unicode_decimal s = [] \<or> 2 \<le> length (filter (\<lambda>c. c = point) s))
   \<and> (digits_value (digit_values unicode_decimal s) < 2 ^ 1023 \<longrightarrow>
        extract_numeric_price_str unicode_decimal s = Inr PNone
        \<or> (\<exists>r. 0 \<le> r \<and> extract_numeric_price_str unicode_decimal s = Inr (PInt r)))
   \<and> (\<forall>r. extract_numeric_price_str unicode_decimal s = Inr (PInt r) \<longrightarrow>
          0 \<le> r
          \<and> (digit_values unicode_decimal (dropWhile (\<lambda>c. c \<noteq> point) s) \<noteq> []
               \<longrightarrow> r \<le> int (digits_value (digit_values unicode_decimal s))))
   \<and> (digit_values unicode_decimal s \<noteq> [] \<and> length (filter (\<lambda>c. c = point) s) \<le> 1
       \<and> digit_values unicode_decimal (dropWhile (\<lambda>c. c \<noteq> point) s) = []
       \<and> digits_value (digit_values unicode_decimal s) < 2 ^ 53
         \<longrightarrow> extract_numeric_price_str unicode_decimal s
               = Inr (PInt (int (digits_value (digit_values unicode_decimal s)))))"
proof -
  let ?e = "extract_numeric_price_str unicode_decimal s"
  let ?N = "digits_value (digit_values unicode_decimal s)"
  let ?fd = "digit_values unicode_decimal (dropWhile (\<lambda>c. c \<noteq> point) s)"
  let ?bad = "digit_values unicode_decimal s = [] \<or> 2 \<le> length (filter (\<lambda>c. c = point) s)"
  note c = extract_numeric_price_cases [of unicode_decimal s]
  have d0: "0 < (10::nat) ^ length ?fd" by simp
  have p1: "?e = Inr PNone \<longleftrightarrow> ?bad"
    using c by (auto split: sum.splits)
  have p2: "?e = Inr PNone \<or> (\<exists>r. 0 \<le> r \<and> ?e = Inr (PInt r))" if small: "?N < 2 ^ 1023"
  proof (cases ?bad)
    case True with p1 show ?thesis by simp
  next
    case False
    show ?thesis
    proof (cases "float_to_int ?N (10 ^ length ?fd)")
      case (Inl e)
      with float_to_int_overflow [OF d0 Inl] small show ?thesis by simp
    next
      case (Inr r)
      with float_to_int_nonneg [OF Inr] c False show ?thesis by simp
    qed
  qed
  have p3: "0 \<le> r \<and> (?fd \<noteq> [] \<longrightarrow> r \<le> int ?N)" if "?e = Inr (PInt r)" for r
  proof (intro conjI impI)
    from that c have f: "float_to_int ?N (10 ^ length ?fd) = Inr r"
      by (auto split: if_splits sum.splits)
    then show "0 \<le> r" by (rule float_to_int_nonneg)
    assume fd: "?fd \<noteq> []"
    from fd have "1 \<le> length ?fd" by (cases ?fd) simp_all
    then have "(10::nat) ^ 1 \<le> 10 ^ length ?fd" by (rule power_increasing) simp
    then have "2 \<le> (10::nat) ^ length ?fd" by simp
    from float_to_int_le [OF this f] show "r \<le> int ?N" by simp
  qed
  have p4: "?e = Inr (PInt (int ?N))"
    if "digit_values unicode_decimal s \<noteq> []" "length (filter (\<lambda>c. c = point) s) \<le> 1" "?fd = []" "?N < 2 ^ 53"
    using that c float_to_int_exact [OF that(4)] by simp
  from p1 p2 p3 p4 show ?thesis by blast
qed

text \<open>The example of the source: a price in full-width digits, followed by two kanji.\<close>

theorem extract_numeric_price_string_witness:
  "digit_values (\<lambda>c. if 65296 \<le> c \<and> c \<le> 65305 then Some (c - 65296) else None)
       [65301, 65296, 65296, 65296, 19975, 20870] = [5, 0, 0, 0]
   \<and> extract_numeric_price_str (\<lambda>c. if 65296 \<le> c \<and> c \<le> 65305 then Some (c - 65296) else None)
       [65301, 65296, 65296, 65296, 19975, 20870] = Inr (PInt 5000)
   \<and> extract_numeric_price_str (\<lambda>c. None) (map of_char ''JPY 50,000,000'') = Inr (PInt 50000000)"
proof -
  let ?fw = "\<lambda>c::nat. if 65296 \<le> c \<and> c \<le> 65305 then Some (c - 65296) else None"
  have d: "digit_values ?fw [65301, 65296, 65296, 65296, 19975, 20870] = [5, 0, 0, 0]"
    by (simp add: decimal_digit_def)
  have v: "digits_value [5, 0, 0, 0] = 5000"
    by (simp add: digits_value_def)
  have a: "extract_numeric_price_str ?fw [65301, 65296, 65296, 65296, 19975, 20870] = Inr (PInt 5000)"
    using extract_numeric_price_string [of ?fw "[65301, 65296, 65296, 65296, 19975, 20870]"]
    unfolding d v by (simp add: point_def decimal_digit_def)
  have d': "digit_values (\<lambda>c. None) (map of_char ''JPY 50,000,000'') = [5, 0, 0, 0, 0, 0, 0, 0]"
    by (simp add: decimal_digit_def)
  have v': "digits_value [5, 0, 0, 0, 0, 0, 0, 0] = 50000000"
    by (simp add: digits_value_def)
  have b: "extract_numeric_price_str (\<lambda>c. None) (map of_char ''JPY 50,000,000'') = Inr (PInt 50000000)"
    using extract_numeric_price_string [of "\<lambda>c. None" "map of_char ''JPY 50,000,000''"]
    unfolding d' v' by (simp add: point_def decimal_digit_def)
  from d a b show ?thesis by blast
qed

text \<open>
  Two prices at which the claim as written fails: \<^verbatim>\<open>1.2.3\<close> has digits and yet gives
  \<^verbatim>\<open>None\<close>, and seventeen nines give a price above the number the digits form.
\<close>

theorem extract_numeric_price_counterexample:
  "digit_values (\<lambda>c. None) (map of_char ''1.2.3'') = [1, 2, 3]
   \<and> extract_numeric_price_str (\<lambda>c. None) (map of_char ''1.2.3'') = Inr PNone
   \<and> digits_value (digit_values (\<lambda>c. None) (map of_char ''99999999999999999'')) = 99999999999999999
   \<and> extract_numeric_price_str (\<lambda>c. None) (map of_char ''99999999999999999'')
       = Inr (PInt 100000000000000000)"
proof -
  have "extract_numeric_price_str (\<lambda>c. None) (map of_char ''1.2.3'') = Inr PNone"
    by (simp add: extract_numeric_price_str_def int_of_float_str_def is_decimal_def
        decimal_digit_def point_def)
  moreover have "extract_numeric_price_str (\<lambda>c. None) (map of_char ''99999999999999999'')
      = Inr (PInt 100000000000000000)"
    by (simp add: extract_numeric_price_str_def int_of_float_str_def is_decimal_def
        decimal_digit_def point_def digits_value_def
        float_to_int_def binary_exponent_def round_half_even_def Let_def
        bit_length.simps)
  moreover have "digits_value (digit_values (\<lambda>c. None) (map of_char ''99999999999999999'')) = 99999999999999999"
    by (simp add: decimal_digit_def digits_value_def)
  moreover have "digit_values (\<lambda>c. None) (map of_char ''1.2.3'') = [1, 2, 3]"
    by (simp add: decimal_digit_def)
  ultimately show ?thesis by blast
qed

text \<open>A string of ASCII digits is converted as a whole number.\<close>

lemma extract_numeric_price_ascii_digits:
  assumes "s \<noteq> []" and "\<forall>c \<in> set s. 48 \<le> (of_char c :: nat) \<and> (of_char c :: nat) \<le> 57"
  shows "extract_numeric_price (PStr s) =
     (case float_to_int (digits_value (map (\<lambda>c. of_char c - 48) s)) (Suc 0) of
        Inr n \<Rightarrow> Inr (PInt n)
      | Inl e \<Rightarrow> Inl e)"
proof -
  have d: "digit_values (\<lambda>c. None) (map of_char s) = map (\<lambda>c. of_char c - 48) s"
    using assms(2) by (induction s) (simp_all add: decimal_digit_def)
  have np: "\<forall>c \<in> set s. (of_char c :: nat) \<noteq> point"
    using assms(2) by (auto simp: point_def)
  then have p: "filter (\<lambda>c. c = point) (map of_char s) = []"
    by (simp add: filter_empty_conv)
  from np have t: "dropWhile (\<lambda>c. c \<noteq> point) (map of_char s) = []"
    by simp
  from assms(1) have ne: "map (\<lambda>c. of_char c - 48) s \<noteq> ([] :: nat list)" by simp
  have "extract_numeric_price (PStr s) = extract_numeric_price_str (\<lambda>c. None) (map of_char s)"
    by (simp add: extract_numeric_price_def)
  also have "\<dots> = (case float_to_int (digits_value (map (\<lambda>c. of_char c - 48) s)) (10 ^ length ([] :: nat list)) of
        Inr n \<Rightarrow> Inr (PInt n)
      | Inl e \<Rightarrow> Inl e)"
    unfolding extract_numeric_price_cases [of "\<lambda>c. None" "map of_char s"] d p t digit_values.simps
    using ne by simp
  finally show ?thesis by simp
qed

text \<open>A price of 310 digits is beyond the range of a float.\<close>

lemma extract_numeric_price_overflow: "extract_numeric_price (PStr ''9999999999999999999999999999999999999999999999999999999999999999999999999999999999999999999999999999999999999999999999999999999999999999999999999999999999999999999999999999999999999999999999999999999999999999999999999999999999999999999999999999999999999999999999999999999999999999999999999999999999999999999999'') = Inl OverflowError"
proof -
  have v: "2 ^ 1024 \<le> digits_value (map (\<lambda>c. of_char c - 48) ''9999999999999999999999999999999999999999999999999999999999999999999999999999999999999999999999999999999999999999999999999999999999999999999999999999999999999999999999999999999999999999999999999999999999999999999999999999999999999999999999999999999999999999999999999999999999999999999999999999999999999999999999'')"
    by (simp add: digits_value_def)
  have a: "\<forall>c \<in> set ''9999999999999999999999999999999999999999999999999999999999999999999999999999999999999999999999999999999999999999999999999999999999999999999999999999999999999999999999999999999999999999999999999999999999999999999999999999999999999999999999999999999999999999999999999999999999999999999999999999999999999999999999''. 48 \<le> (of_char c :: nat) \<and> (of_char c :: nat) \<le> 57"
    by simp
  have ne: "''9999999999999999999999999999999999999999999999999999999999999999999999999999999999999999999999999999999999999999999999999999999999999999999999999999999999999999999999999999999999999999999999999999999999999999999999999999999999999999999999999999999999999999999999999999999999999999999999999999999999999999999999'' \<noteq> []"
    by simp
  show ?thesis
    unfolding extract_numeric_price_ascii_digits [OF ne a] float_to_int_big [OF v] by simp
qed

text \<open>
  Claim C4, at inputs where the code departs from it. \<^verbatim>\<open>_extract_numeric_price\<close> catches
  the \<^verbatim>\<open>ValueError\<close> of an unparsable string itself and returns \<^verbatim>\<open>None\<close>, so the
  handler in \<^verbatim>\<open>clean_data\<close> that stores \<^verbatim>\<open>price_raw\<close> never runs for a string: the empty
  price and a price with two decimal points come back with \<^verbatim>\<open>price = None\<close> and no
  \<^verbatim>\<open>price_raw\<close>. Only a price that is not a string reaches the handler. A price of 310
  digits overflows the float conversion, and that \<^verbatim>\<open>OverflowError\<close> leaves \<^verbatim>\<open>clean_data\<close>.
\<close>

theorem clean_data_unparsable_price:
  "clean_data ''homes'' ''2024-05-01T09:00:00'' [(''price'', PStr '''')]
     = Inr [(''source'', PStr ''homes''), (''source_url'', PStr ''''),
            (''scraped_at'', PStr ''2024-05-01T09:00:00''), (''price'', PNone)]
   \<and> clean_data ''homes'' ''2024-05-01T09:00:00'' [(''price'', PStr ''8.5 / 1.5'')]
     = Inr [(''source'', PStr ''homes''), (''source_url'', PStr ''''),
            (''scraped_at'', PStr ''2024-05-01T09:00:00''), (''price'', PNone)]
   \<and> clean_data ''homes'' ''2024-05-01T09:00:00'' [(''price'', PInt 5000)]
     = Inr [(''source'', PStr ''homes''), (''source_url'', PStr ''''),
            (''scraped_at'', PStr ''2024-05-01T09:00:00''), (''price'', PNone), (''price_raw'', PInt 5000)]
   \<and> clean_data ''homes'' ''2024-05-01T09:00:00'' [(''price'', PStr ''9999999999999999999999999999999999999999999999999999999999999999999999999999999999999999999999999999999999999999999999999999999999999999999999999999999999999999999999999999999999999999999999999999999999999999999999999999999999999999999999999999999999999999999999999999999999999999999999999999999999999999999999'')]
     = Inl OverflowError"
proof -
  note big = extract_numeric_price_overflow
  have "clean_data ''homes'' ''2024-05-01T09:00:00'' [(''price'', PStr ''9999999999999999999999999999999999999999999999999999999999999999999999999999999999999999999999999999999999999999999999999999999999999999999999999999999999999999999999999999999999999999999999999999999999999999999999999999999999999999999999999999999999999999999999999999999999999999999999999999999999999999999999'')]
     = Inl OverflowError"
    by (simp add: clean_data_def clean_price_def dict_get_def big)
  moreover have "clean_data ''homes'' ''2024-05-01T09:00:00'' [(''price'', PStr '''')]
     = Inr [(''source'', PStr ''homes''), (''source_url'', PStr ''''),
            (''scraped_at'', PStr ''2024-05-01T09:00:00''), (''price'', PNone)]"
    by (simp add: clean_data_def clean_price_def dict_get_def dict_set_def dict_has_def
        standard_fields_def extract_numeric_price_def extract_numeric_price_str_def)
  moreover have "clean_data ''homes'' ''2024-05-01T09:00:00'' [(''price'', PStr ''8.5 / 1.5'')]
     = Inr [(''source'', PStr ''homes''), (''source_url'', PStr ''''),
            (''scraped_at'', PStr ''2024-05-01T09:00:00''), (''price'', PNone)]"
    by (simp add: clean_data_def clean_price_def dict_get_def dict_set_def dict_has_def
        standard_fields_def extract_numeric_price_def extract_numeric_price_str_def
        int_of_float_str_def is_decimal_def decimal_digit_def point_def)
  moreover have "clean_data ''homes'' ''2024-05-01T09:00:00'' [(''price'', PInt 5000)]
     = Inr [(''source'', PStr ''homes''), (''source_url'', PStr ''''),
            (''scraped_at'', PStr ''2024-05-01T09:00:00''), (''price'', PNone), (''price_raw'', PInt 5000)]"
    by (simp add: clean_data_def clean_price_def dict_get_def dict_set_def dict_has_def
        standard_fields_def extract_numeric_price_def extract_numeric_price_str_def)
  ultimately show ?thesis by blast
qed

subsection \<open>The keys of a normalized listing\<close>

lemma copy_standard_fields_keys:
  "set (dict_keys (copy_standard_fields fs data cleaned)) \<subseteq> set (dict_keys cleaned) \<union> set fs"
proof (induction fs arbitrary: cleaned)
  case Nil
  show ?case by simp
next
  case (Cons f fs)
  let ?c = "case dict_get data f of None \<Rightarrow> cleaned | Some v \<Rightarrow> dict_set cleaned f v"
  have "set (dict_keys ?c) \<subseteq> insert f (set (dict_keys cleaned))"
    by (auto simp: dict_keys_set split: option.splits)
  with Cons.IH [of ?c] show ?case by auto
qed

lemma copy_raw_fields_keys:
  "set (dict_keys (copy_raw_fields items cleaned)) \<subseteq> set (dict_keys cleaned) \<union> {''raw_'' @ k | k. True}"
proof (induction items arbitrary: cleaned)
  case Nil
  show ?case by simp
next
  case (Cons item items)
  obtain key val where item: "item = (key, val)" by (cases item)
  let ?c = "if \<not> dict_has cleaned key \<and> key \<notin> set [''url'', ''price'']
            then dict_set cleaned (''raw_'' @ key) val else cleaned"
  have "set (dict_keys ?c) \<subseteq> insert (''raw_'' @ key) (set (dict_keys cleaned))"
    by (auto simp: dict_keys_set)
  moreover have "''raw_'' @ key \<in> {''raw_'' @ k | k. True}" by blast
  ultimately have "set (dict_keys ?c) \<subseteq> set (dict_keys cleaned) \<union> {''raw_'' @ k | k. True}"
    by blast
  with Cons.IH [of ?c] show ?case unfolding item copy_raw_fields.simps by blast
qed

lemma clean_price_keys:
  "clean_price data cleaned = Inr c \<Longrightarrow>
     set (dict_keys c) \<subseteq> set (dict_keys cleaned) \<union> {''price'', ''price_raw''}"
  by (auto simp: clean_price_def dict_keys_set split: option.splits sum.splits if_splits)

lemma clean_data_keys:
  assumes "clean_data name now data = Inr listing"
  shows "set (dict_keys listing) \<subseteq>
           {''source'', ''source_url'', ''scraped_at''} \<union> {''price'', ''price_raw''}
           \<union> set standard_fields \<union> {''raw_'' @ k | k. True}"
proof -
  define c0 where "c0 = dict_set (dict_set (dict_set [] ''source'' (PStr name)) ''source_url''
                (case dict_get data ''url'' of None \<Rightarrow> PStr [] | Some u \<Rightarrow> u)) ''scraped_at'' (PStr now)"
  define A where "A = {''source'', ''source_url'', ''scraped_at''}"
  define P where "P = {''price'', ''price_raw''}"
  define R where "R = {''raw_'' @ k | k. True}"
  have unfold: "clean_data name now data =
      (case clean_price data c0 of
         Inl e \<Rightarrow> Inl e
       | Inr cleaned \<Rightarrow> Inr (copy_raw_fields data (copy_standard_fields standard_fields data cleaned)))"
    by (simp add: clean_data_def Let_def c0_def)
  obtain c where c: "clean_price data c0 = Inr c"
    and l: "listing = copy_raw_fields data (copy_standard_fields standard_fields data c)"
  proof (cases "clean_price data c0")
    case (Inl e)
    with assms unfold show ?thesis by simp
  next
    case (Inr c)
    with assms unfold that show ?thesis by simp
  qed
  have k0: "set (dict_keys c0) = A"
    unfolding c0_def A_def by (simp only: dict_keys_set) (simp add: dict_keys_def insert_commute)
  have k1: "set (dict_keys c) \<subseteq> A \<union> P"
    using clean_price_keys [OF c] unfolding k0 P_def .
  have k2: "set (dict_keys (copy_standard_fields standard_fields data c)) \<subseteq> A \<union> P \<union> set standard_fields"
    using copy_standard_fields_keys [of standard_fields data c] k1 by blast
  have "set (dict_keys listing) \<subseteq> A \<union> P \<union> set standard_fields \<union> R"
    unfolding l
    using copy_raw_fields_keys [of data "copy_standard_fields standard_fields data c", folded R_def] k2
    by blast
  then show ?thesis unfolding A_def P_def R_def .
qed

text \<open>
  No listing that \<^verbatim>\<open>clean_data\<close> returns has a \<^verbatim>\<open>url\<close> or a \<^verbatim>\<open>source_id\<close> key, so in
  update mode each of them is classified as new, whatever the stored rows are.
\<close>

lemma clean_data_no_identity:
  assumes "clean_data name now data = Inr listing"
  shows "\<not> dict_has listing ''url'' \<and> \<not> dict_has listing ''source_id''"
  using clean_data_keys [OF assms] by (auto simp: dict_has_iff standard_fields_def)

section \<open>Properties of the image resolver\<close>

lemma collect_images_canonical:
  "\<forall>u \<in> set urls. u \<noteq> [] \<and> \<not> is_skipped u \<Longrightarrow> distinct (acc @ urls) \<Longrightarrow>
     collect_images (map PStr urls) acc = Inr (acc @ urls)"
  by (induction urls arbitrary: acc) auto

lemma original_images_canonical:
  "\<forall>u \<in> set urls. \<not> is_smallimg u \<Longrightarrow> original_images file_values urls = Inr urls"
  by (induction urls) auto

text \<open>
  Claim C5, at an input where the code departs from it. Duplicates are removed before the
  \<^verbatim>\<open>smallimg\<close> wrappers are replaced by their \<^verbatim>\<open>file\<close> parameter and not again
  afterwards: two different wrappers of one original leave that original twice in the
  result.
\<close>

theorem process_images_duplicates:
  "process_images (urllib_file_values elsewhere)
     [(''images'', PList [PStr ''https://img.example/smallimg/image?file=https://a.example/p.jpg&w=100'',
                          PStr ''https://img.example/smallimg/image?file=https://a.example/p.jpg&w=200''])]
   = Inr [(''images'', PList [PStr ''https://a.example/p.jpg'', PStr ''https://a.example/p.jpg''])]"
  by code_simp

text \<open>
  Claim C6, as the code has it. A listing whose \<^verbatim>\<open>images\<close> value is a non-empty list of
  non-empty strings with no duplicates, none matching a skip pattern and none a
  \<^verbatim>\<open>smallimg\<close> wrapper comes back from \<^verbatim>\<open>process_images\<close> as it was, with the same images
  in the same order, whatever the URL library does.
\<close>

theorem process_images_canonical:
  assumes "dict_get listing ''images'' = Some (PList (map PStr urls))"
    and "urls \<noteq> []" and "distinct urls"
    and "\<forall>u \<in> set urls. u \<noteq> [] \<and> \<not> is_skipped u \<and> \<not> is_smallimg u"
  shows "process_images file_values listing = Inr listing"
proof -
  have c: "collect_images (map PStr urls) [] = Inr urls"
    using collect_images_canonical [of urls "[]"] assms by simp
  have o: "original_images file_values urls = Inr urls"
    using original_images_canonical assms by blast
  show ?thesis
    using assms(1,2) c o dict_set_same [OF assms(1)]
    by (simp add: process_images_def iterate_def)
qed

theorem process_images_canonical_witness:
  "dict_get [(''title'', PStr ''t''),
             (''images'', PList [PStr ''https://a.example/1.jpg'', PStr ''https://a.example/2.jpg''])]
     ''images''
     = Some (PList (map PStr [''https://a.example/1.jpg'', ''https://a.example/2.jpg'']))
   \<and> distinct [''https://a.example/1.jpg'', ''https://a.example/2.jpg'']
   \<and> \<not> is_skipped ''https://a.example/1.jpg'' \<and> \<not> is_smallimg ''https://a.example/1.jpg''
   \<and> \<not> is_skipped ''https://a.example/2.jpg'' \<and> \<not> is_smallimg ''https://a.example/2.jpg''
   \<and> process_images (\<lambda>u. Inl ValueError)
       [(''title'', PStr ''t''),
        (''images'', PList [PStr ''https://a.example/1.jpg'', PStr ''https://a.example/2.jpg''])]
     = Inr [(''title'', PStr ''t''),
            (''images'', PList [PStr ''https://a.example/1.jpg'', PStr ''https://a.example/2.jpg''])]"
  using process_images_canonical [of "[(''title'', PStr ''t''), (''images'', PList [PStr ''https://a.example/1.jpg'', PStr ''https://a.example/2.jpg''])]"
      "[''https://a.example/1.jpg'', ''https://a.example/2.jpg'']" "\<lambda>u. Inl ValueError"]
  by (simp add: dict_get_def is_skipped_def is_smallimg_def skip_patterns_def lower_def lower_char_def)

text \<open>
  An empty string in the list meets the three conditions of the claim as written, and the
  first loop drops it: the list does not come back unchanged.
\<close>

theorem process_images_empty_url:
  "distinct ['''', ''https://a.example/1.jpg'']
   \<and> \<not> is_skipped '''' \<and> \<not> is_smallimg ''''
   \<and> \<not> is_skipped ''https://a.example/1.jpg'' \<and> \<not> is_smallimg ''https://a.example/1.jpg''
   \<and> process_images (urllib_file_values (\<lambda>url. Inl ValueError))
       [(''images'', PList [PStr '''', PStr ''https://a.example/1.jpg''])]
     = Inr [(''images'', PList [PStr ''https://a.example/1.jpg''])]"
  by (simp add: process_images_def iterate_def dict_get_def dict_set_def is_skipped_def
      is_smallimg_def skip_patterns_def lower_def lower_char_def)

section \<open>Properties of the reconciliation\<close>

text \<open>
  Claim C1, as the code has it. Take a listing whose \<^verbatim>\<open>source_id\<close> is present and whose
  key \<^verbatim>\<open>source:source_id\<close> is in the index, with the row id the index stores for it. In
  update mode with \<^verbatim>\<open>update_existing\<close> the listing goes to the update list carrying that
  row id, provided the id is truthy; a row id that is \<^verbatim>\<open>0\<close>, empty or \<^verbatim>\<open>None\<close> makes it a
  skip. In update mode without \<^verbatim>\<open>update_existing\<close> it is skipped and the counter grows by
  exactly one. Without update mode it is kept as new, whatever the index holds.
\<close>

theorem reconcile_known_source_id:
  assumes "get_truthy listing ''source_id''"
    and "source_key str_of listing = Inr key"
    and "source_id_dict ex key \<noteq> None"
    and "id_by_source_id ex key = Some row_id"
  shows "(truthy row_id \<longrightarrow>
            reconcile_listing str_of True ex listing st =
              Inr (st\<lparr>update_listings := update_listings st @ [dict_set listing ''id'' row_id]\<rparr>))
       \<and> (\<not> truthy row_id \<longrightarrow>
            reconcile_listing str_of True ex listing st =
              Inr (st\<lparr>total_skipped := total_skipped st + 1\<rparr>))
       \<and> reconcile_listing str_of False ex listing st =
            Inr (st\<lparr>total_skipped := total_skipped st + 1\<rparr>)
       \<and> reconcile str_of False update_existing ex [listing] skipped =
            Inr \<lparr>new_listings = [listing], update_listings = [], total_skipped = skipped\<rparr>"
  using assms
  by (simp add: reconcile_listing_def check_duplicate_def check_source_id_def reconcile_def)

text \<open>The example of the specification: the stored row has id 7.\<close>

theorem reconcile_known_source_id_witness:
  "reconcile (\<lambda>v. []) True True
     (get_existing_listing_ids (\<lambda>v. [])
        (Inr [[(''id'', PInt 7), (''source_id'', PStr ''123''), (''source'', PStr ''siteA''),
               (''url'', PNone)]]))
     [[(''source'', PStr ''siteA''), (''source_id'', PStr ''123'')]] 0
   = Inr \<lparr>new_listings = [],
          update_listings = [[(''source'', PStr ''siteA''), (''source_id'', PStr ''123''), (''id'', PInt 7)]],
          total_skipped = 0\<rparr>"
proof -
  have ex: "get_existing_listing_ids (\<lambda>v. [])
        (Inr [[(''id'', PInt 7), (''source_id'', PStr ''123''), (''source'', PStr ''siteA''),
               (''url'', PNone)]])
     = \<lparr>source_id_dict = [''siteA:123'' \<mapsto> True], url_dict = Map.empty,
        id_by_source_id = [''siteA:123'' \<mapsto> PInt 7]\<rparr>"
    by (simp add: get_existing_listing_ids_def index_source_id_def index_url_def get_truthy_def
        dict_get_def source_key_def format_value_def no_existing_def)
  show ?thesis
    using reconcile_known_source_id [of "[(''source'', PStr ''siteA''), (''source_id'', PStr ''123'')]"
      "\<lambda>v. []" "''siteA:123''"
      "\<lparr>source_id_dict = [''siteA:123'' \<mapsto> True], url_dict = Map.empty,
        id_by_source_id = [''siteA:123'' \<mapsto> PInt 7]\<rparr>"
      "PInt 7" "\<lparr>new_listings = [], update_listings = [], total_skipped = 0\<rparr>"]
    by (simp add: ex reconcile_def get_truthy_def dict_get_def source_key_def format_value_def
        dict_set_def)
qed

text \<open>
  The same listing against a stored row whose id is \<^verbatim>\<open>0\<close>: the identity is known and
  \<^verbatim>\<open>update_existing\<close> is set, yet the listing is skipped, not updated.
\<close>

theorem reconcile_falsy_id:
  "(let ex = get_existing_listing_ids (\<lambda>v. [])
        (Inr [[(''id'', PInt 0), (''source_id'', PStr ''123''), (''source'', PStr ''siteA''),
               (''url'', PNone)]]);
       listing = [(''source'', PStr ''siteA''), (''source_id'', PStr ''123'')]
   in get_truthy listing ''source_id''
    \<and> source_key (\<lambda>v. []) listing = Inr ''siteA:123''
    \<and> source_id_dict ex ''siteA:123'' \<noteq> None
    \<and> id_by_source_id ex ''siteA:123'' = Some (PInt 0)
    \<and> reconcile (\<lambda>v. []) True True ex [listing] 0
        = Inr \<lparr>new_listings = [], update_listings = [], total_skipped = 1\<rparr>)"
proof -
  have ex: "get_existing_listing_ids (\<lambda>v. [])
        (Inr [[(''id'', PInt 0), (''source_id'', PStr ''123''), (''source'', PStr ''siteA''),
               (''url'', PNone)]])
     = \<lparr>source_id_dict = [''siteA:123'' \<mapsto> True], url_dict = Map.empty,
        id_by_source_id = [''siteA:123'' \<mapsto> PInt 0]\<rparr>"
    by (simp add: get_existing_listing_ids_def index_source_id_def index_url_def get_truthy_def
        dict_get_def source_key_def format_value_def no_existing_def)
  have key: "source_key (\<lambda>v. []) [(''source'', PStr ''siteA''), (''source_id'', PStr ''123'')]
      = Inr ''siteA:123''"
    by (simp add: source_key_def dict_get_def format_value_def)
  show ?thesis
    unfolding Let_def ex
    by (simp add: key reconcile_def reconcile_listing_def check_duplicate_def check_source_id_def
        get_truthy_def dict_get_def)
qed

lemma clean_data_always_new:
  assumes "clean_data name now data = Inr listing"
  shows "reconcile str_of True update_existing ex [listing] skipped =
           Inr \<lparr>new_listings = [listing], update_listings = [], total_skipped = skipped\<rparr>"
proof -
  from clean_data_no_identity [OF assms]
  have "dict_get listing ''url'' = None" "dict_get listing ''source_id'' = None"
    by (simp_all add: dict_has_def dict_get_def)
  then show ?thesis
    by (simp add: reconcile_def reconcile_listing_def check_duplicate_def check_source_id_def
        check_url_def get_truthy_def)
qed

text \<open>
  A listing that does carry its URL under \<^verbatim>\<open>url\<close> and matches a stored row by that URL
  only is skipped, with or without \<^verbatim>\<open>update_existing\<close>: this path resolves no row id.
\<close>

lemma reconcile_url_key:
  assumes "\<not> get_truthy listing ''source_id''"
    and "dict_get listing ''url'' = Some (PStr url)" and "url \<noteq> []"
    and "url_dict ex (PStr url) \<noteq> None"
  shows "reconcile_listing str_of update_existing ex listing st =
           Inr (st\<lparr>total_skipped := total_skipped st + 1\<rparr>)"
  using assms
  by (simp add: reconcile_listing_def check_duplicate_def check_source_id_def check_url_def
      hash_key_def)

text \<open>
  Claim C2, at an input where the code departs from it. \<^verbatim>\<open>clean_data\<close> stores the listing's
  URL under \<^verbatim>\<open>source_url\<close>, while the update-mode loop looks for it under \<^verbatim>\<open>url\<close>: a
  normalized listing whose URL is that of a stored row is not recognised as a duplicate and
  goes to the new listings.
\<close>

theorem reconcile_url_only_match:
  "clean_data ''homes'' ''2024-05-01T09:00:00'' [(''url'', PStr ''https://www.homes.co.jp/chintai/b-1/''), (''title'', PStr ''Flat'')]
     = Inr [(''source'', PStr ''homes''), (''source_url'', PStr ''https://www.homes.co.jp/chintai/b-1/''),
            (''scraped_at'', PStr ''2024-05-01T09:00:00''), (''title'', PStr ''Flat'')]
   \<and> url_dict (get_existing_listing_ids (\<lambda>v. ''None'')
         (Inr [[(''id'', PInt 7), (''source_id'', PNone), (''source'', PStr ''homes''),
                (''url'', PStr ''https://www.homes.co.jp/chintai/b-1/'')]]))
       (PStr ''https://www.homes.co.jp/chintai/b-1/'') = Some True
   \<and> (\<forall>update_existing. reconcile (\<lambda>v. ''None'') True update_existing
         (get_existing_listing_ids (\<lambda>v. ''None'')
           (Inr [[(''id'', PInt 7), (''source_id'', PNone), (''source'', PStr ''homes''),
                  (''url'', PStr ''https://www.homes.co.jp/chintai/b-1/'')]]))
         [[(''source'', PStr ''homes''), (''source_url'', PStr ''https://www.homes.co.jp/chintai/b-1/''),
           (''scraped_at'', PStr ''2024-05-01T09:00:00''), (''title'', PStr ''Flat'')]] 0
     = Inr \<lparr>new_listings =
              [[(''source'', PStr ''homes''), (''source_url'', PStr ''https://www.homes.co.jp/chintai/b-1/''),
                (''scraped_at'', PStr ''2024-05-01T09:00:00''), (''title'', PStr ''Flat'')]],
            update_listings = [], total_skipped = 0\<rparr>)"
proof -
  have c: "clean_data ''homes'' ''2024-05-01T09:00:00'' [(''url'', PStr ''https://www.homes.co.jp/chintai/b-1/''), (''title'', PStr ''Flat'')]
     = Inr [(''source'', PStr ''homes''), (''source_url'', PStr ''https://www.homes.co.jp/chintai/b-1/''),
            (''scraped_at'', PStr ''2024-05-01T09:00:00''), (''title'', PStr ''Flat'')]"
    by (simp add: clean_data_def clean_price_def dict_get_def dict_set_def dict_has_def standard_fields_def)
  have ex: "get_existing_listing_ids (\<lambda>v. ''None'')
         (Inr [[(''id'', PInt 7), (''source_id'', PNone), (''source'', PStr ''homes''),
                (''url'', PStr ''https://www.homes.co.jp/chintai/b-1/'')]])
     = \<lparr>source_id_dict = Map.empty, url_dict = [PStr ''https://www.homes.co.jp/chintai/b-1/'' \<mapsto> True],
        id_by_source_id = Map.empty\<rparr>"
    by (simp add: get_existing_listing_ids_def index_source_id_def index_url_def get_truthy_def
        dict_get_def hash_key_def no_existing_def)
  show ?thesis
    unfolding ex
    using c clean_data_always_new [OF c] by simp
qed

section \<open>Properties of the site extractors\<close>

lemma append_cleaned_mem: "r \<in> set (append_cleaned name now d) \<longleftrightarrow> clean_data name now d = Inr r"
  by (auto simp: append_cleaned_def split: sum.splits)

text \<open>
  The rental branch of \<^verbatim>\<open>HomesScraper._extract_listings\<close> keeps the record of every
  listing element that \<^verbatim>\<open>clean_data\<close> accepts, whatever its title, price and location
  are, and keeps nothing else.
\<close>

lemma homes_extract_rent_mem:
  "r \<in> set (homes_extract_rent name now urljoin base_url fetch_high_res listing_elements) \<longleftrightarrow>
     (\<exists>element \<in> set listing_elements.
        clean_data name now (homes_rent_listing_data urljoin base_url fetch_high_res element) = Inr r)"
  by (auto simp: homes_extract_rent_def append_cleaned_mem)

text \<open>
  Claim C7, as the code has it. \<^verbatim>\<open>AkiyaMartScraper._extract_listings\<close> adds a record only
  for a card whose raw record has a non-empty title, price or location.
  \<^verbatim>\<open>HomesScraper._fallback_extract_listings\<close> adds a record only for a container whose raw
  record has a \<^verbatim>\<open>price\<close> or a \<^verbatim>\<open>title\<close> key, a location alone not being enough and the
  title possibly being empty text. The rental branch of \<^verbatim>\<open>HomesScraper._extract_listings\<close>
  has no such condition.
\<close>

theorem extractors_retention:
  "(\<forall>r \<in> set (akiya_extract_listings name now urljoin base_url property_cards).
      \<exists>c \<in> set property_cards.
        clean_data name now (akiya_listing_data urljoin base_url c) = Inr r
        \<and> (get_truthy (akiya_listing_data urljoin base_url c) ''title''
           \<or> get_truthy (akiya_listing_data urljoin base_url c) ''price''
           \<or> get_truthy (akiya_listing_data urljoin base_url c) ''location''))
   \<and> (\<forall>r \<in> set (homes_fallback_extract name now urljoin base_url price_search unique_containers).
      \<exists>c \<in> set unique_containers. \<exists>listing_data.
        homes_fallback_listing_data urljoin base_url price_search c = Some listing_data
        \<and> clean_data name now listing_data = Inr r
        \<and> (dict_has listing_data ''price'' \<or> dict_has listing_data ''title''))"
proof (intro conjI ballI)
  fix r assume "r \<in> set (akiya_extract_listings name now urljoin base_url property_cards)"
  then obtain c where c: "c \<in> set property_cards" and r: "r \<in> set (akiya_card name now urljoin base_url c)"
    by (auto simp: akiya_extract_listings_def)
  let ?d = "akiya_listing_data urljoin base_url c"
  from r have g: "get_truthy ?d ''title'' \<or> get_truthy ?d ''price'' \<or> get_truthy ?d ''location''"
    by (auto simp: akiya_card_def Let_def split: if_splits)
  with r have "clean_data name now ?d = Inr r"
    by (simp add: akiya_card_def Let_def append_cleaned_mem)
  with c g show "\<exists>c \<in> set property_cards.
        clean_data name now (akiya_listing_data urljoin base_url c) = Inr r
        \<and> (get_truthy (akiya_listing_data urljoin base_url c) ''title''
           \<or> get_truthy (akiya_listing_data urljoin base_url c) ''price''
           \<or> get_truthy (akiya_listing_data urljoin base_url c) ''location'')"
    by blast
next
  fix r assume "r \<in> set (homes_fallback_extract name now urljoin base_url price_search unique_containers)"
  then obtain c where c: "c \<in> set unique_containers"
    and r: "r \<in> set (homes_fallback_container name now urljoin base_url price_search c)"
    by (auto simp: homes_fallback_extract_def)
  from r obtain d where d: "homes_fallback_listing_data urljoin base_url price_search c = Some d"
    by (cases "homes_fallback_listing_data urljoin base_url price_search c")
       (auto simp: homes_fallback_container_def)
  from r d have g: "dict_has d ''price'' \<or> dict_has d ''title''"
    by (auto simp: homes_fallback_container_def split: if_splits)
  with r d have "clean_data name now d = Inr r"
    by (simp add: homes_fallback_container_def append_cleaned_mem)
  with c d g show "\<exists>c \<in> set unique_containers. \<exists>listing_data.
        homes_fallback_listing_data urljoin base_url price_search c = Some listing_data
        \<and> clean_data name now listing_data = Inr r
        \<and> (dict_has listing_data ''price'' \<or> dict_has listing_data ''title'')"
    by blast
qed

text \<open>A card with nothing but a heading.\<close>

theorem extractors_retention_witness:
  "akiya_extract_listings ''akiyamart'' ''2024-05-01T09:00:00'' (\<lambda>base href. base @ href) ''https://www.akiya-mart.com''
     [Node [] [] [] False
        (\<lambda>selector. if selector = ''h2'' then [Node ''Old farmhouse'' ''Old farmhouse'' [] False (\<lambda>selector. [])]
                     else [])]
   = [[(''source'', PStr ''akiyamart''), (''source_url'', PStr ''''),
       (''scraped_at'', PStr ''2024-05-01T09:00:00''), (''title'', PStr ''Old farmhouse'')]]
   \<and> (\<exists>c \<in> set [Node [] [] [] False
        (\<lambda>selector. if selector = ''h2'' then [Node ''Old farmhouse'' ''Old farmhouse'' [] False (\<lambda>selector. [])]
                     else [])].
        clean_data ''akiyamart'' ''2024-05-01T09:00:00''
            (akiya_listing_data (\<lambda>base href. base @ href) ''https://www.akiya-mart.com'' c)
          = Inr [(''source'', PStr ''akiyamart''), (''source_url'', PStr ''''),
                 (''scraped_at'', PStr ''2024-05-01T09:00:00''), (''title'', PStr ''Old farmhouse'')]
        \<and> (get_truthy (akiya_listing_data (\<lambda>base href. base @ href) ''https://www.akiya-mart.com'' c) ''title''
           \<or> get_truthy (akiya_listing_data (\<lambda>base href. base @ href) ''https://www.akiya-mart.com'' c) ''price''
           \<or> get_truthy (akiya_listing_data (\<lambda>base href. base @ href) ''https://www.akiya-mart.com'' c) ''location''))"
proof -
  let ?card = "Node [] [] [] False
        (\<lambda>selector. if selector = ''h2'' then [Node ''Old farmhouse'' ''Old farmhouse'' [] False (\<lambda>selector. [])]
                     else [])"
  have d: "akiya_listing_data (\<lambda>base href. base @ href) ''https://www.akiya-mart.com'' ?card
      = [(''title'', PStr ''Old farmhouse'')]"
    by (simp add: akiya_listing_data_def set_first_text_def select_one_def dict_set_def)
  have c: "clean_data ''akiyamart'' ''2024-05-01T09:00:00'' [(''title'', PStr ''Old farmhouse'')]
      = Inr [(''source'', PStr ''akiyamart''), (''source_url'', PStr ''''),
             (''scraped_at'', PStr ''2024-05-01T09:00:00''), (''title'', PStr ''Old farmhouse'')]"
    by (simp add: clean_data_def clean_price_def dict_get_def dict_set_def dict_has_def standard_fields_def)
  have run: "akiya_extract_listings ''akiyamart'' ''2024-05-01T09:00:00'' (\<lambda>base href. base @ href)
      ''https://www.akiya-mart.com'' [?card]
      = [[(''source'', PStr ''akiyamart''), (''source_url'', PStr ''''),
          (''scraped_at'', PStr ''2024-05-01T09:00:00''), (''title'', PStr ''Old farmhouse'')]]"
    by (simp add: akiya_extract_listings_def akiya_card_def d c append_cleaned_def get_truthy_def dict_get_def)
  from extractors_retention [of "''akiyamart''" "''2024-05-01T09:00:00''" "\<lambda>base href. base @ href"
      "''https://www.akiya-mart.com''" "[?card]"]
  have "\<forall>r \<in> set (akiya_extract_listings ''akiyamart'' ''2024-05-01T09:00:00'' (\<lambda>base href. base @ href)
      ''https://www.akiya-mart.com'' [?card]).
      \<exists>c \<in> set [?card].
        clean_data ''akiyamart'' ''2024-05-01T09:00:00''
            (akiya_listing_data (\<lambda>base href. base @ href) ''https://www.akiya-mart.com'' c) = Inr r
        \<and> (get_truthy (akiya_listing_data (\<lambda>base href. base @ href) ''https://www.akiya-mart.com'' c) ''title''
           \<or> get_truthy (akiya_listing_data (\<lambda>base href. base @ href) ''https://www.akiya-mart.com'' c) ''price''
           \<or> get_truthy (akiya_listing_data (\<lambda>base href. base @ href) ''https://www.akiya-mart.com'' c) ''location'')"
    by (rule conjunct1)
  then have "\<exists>c \<in> set [?card].
        clean_data ''akiyamart'' ''2024-05-01T09:00:00''
            (akiya_listing_data (\<lambda>base href. base @ href) ''https://www.akiya-mart.com'' c)
          = Inr [(''source'', PStr ''akiyamart''), (''source_url'', PStr ''''),
                 (''scraped_at'', PStr ''2024-05-01T09:00:00''), (''title'', PStr ''Old farmhouse'')]
        \<and> (get_truthy (akiya_listing_data (\<lambda>base href. base @ href) ''https://www.akiya-mart.com'' c) ''title''
           \<or> get_truthy (akiya_listing_data (\<lambda>base href. base @ href) ''https://www.akiya-mart.com'' c) ''price''
           \<or> get_truthy (akiya_listing_data (\<lambda>base href. base @ href) ''https://www.akiya-mart.com'' c) ''location'')"
    unfolding run by (simp only: list.set ball_simps insert_iff empty_iff simp_thms)
  with run show ?thesis by (rule conjI)
qed

text \<open>
  A listing element in which no selector matches still yields a record in the rental
  branch, and a fallback container with a detail link and an empty heading yields a record
  whose title is empty and which has neither price nor location.
\<close>

theorem homes_adds_empty_records:
  \<open>homes_rent_listing_data (\<lambda>base href. base @ href) ''https://www.homes.co.jp'' (\<lambda>url. [])
      (Node [] [] [] False (\<lambda>selector. []))
     = [(''url'', PNone), (''images'', PList [])]
   \<and> homes_extract_rent ''homes'' ''2024-05-01T09:00:00'' (\<lambda>base href. base @ href)
       ''https://www.homes.co.jp'' (\<lambda>url. []) [Node [] [] [] False (\<lambda>selector. [])]
     = [[(''source'', PStr ''homes''), (''source_url'', PNone),
         (''scraped_at'', PStr ''2024-05-01T09:00:00''), (''images'', PList [])]]
   \<and> homes_fallback_listing_data (\<lambda>base href. base @ href) ''https://www.homes.co.jp'' (\<lambda>t. None)
       (Node [] [] [] False
          (\<lambda>selector. if selector = ''a[href]'' then [Node [] [] [(''href'', ''/detail/1'')] False (\<lambda>selector. [])]
                       else if selector = ''h1, h2, h3, h4, strong, *[class*="title"]''
                       then [Node [] [] [] False (\<lambda>selector. [])]
                       else []))
     = Some [(''url'', PStr ''https://www.homes.co.jp/detail/1''), (''title'', PStr ''''), (''images'', PList [])]
   \<and> homes_fallback_extract ''homes'' ''2024-05-01T09:00:00'' (\<lambda>base href. base @ href)
       ''https://www.homes.co.jp'' (\<lambda>t. None)
       [Node [] [] [] False
          (\<lambda>selector. if selector = ''a[href]'' then [Node [] [] [(''href'', ''/detail/1'')] False (\<lambda>selector. [])]
                       else if selector = ''h1, h2, h3, h4, strong, *[class*="title"]''
                       then [Node [] [] [] False (\<lambda>selector. [])]
                       else [])]
     = [[(''source'', PStr ''homes''), (''source_url'', PStr ''https://www.homes.co.jp/detail/1''),
         (''scraped_at'', PStr ''2024-05-01T09:00:00''), (''title'', PStr ''''), (''images'', PList [])]]\<close>
proof -
  have d1: "homes_rent_listing_data (\<lambda>base href. base @ href) ''https://www.homes.co.jp'' (\<lambda>url. [])
      (Node [] [] [] False (\<lambda>selector. []))
     = [(''url'', PNone), (''images'', PList [])]"
    by (simp add: homes_rent_listing_data_def select_one_def set_text_def dict_set_def)
  have r1: "homes_extract_rent ''homes'' ''2024-05-01T09:00:00'' (\<lambda>base href. base @ href)
       ''https://www.homes.co.jp'' (\<lambda>url. []) [Node [] [] [] False (\<lambda>selector. [])]
     = [[(''source'', PStr ''homes''), (''source_url'', PNone),
         (''scraped_at'', PStr ''2024-05-01T09:00:00''), (''images'', PList [])]]"
    by (simp add: homes_extract_rent_def d1 append_cleaned_def clean_data_def clean_price_def
        dict_get_def dict_set_def standard_fields_def dict_has_def)
  have d2: \<open>homes_fallback_listing_data (\<lambda>base href. base @ href) ''https://www.homes.co.jp'' (\<lambda>t. None)
       (Node [] [] [] False
          (\<lambda>selector. if selector = ''a[href]'' then [Node [] [] [(''href'', ''/detail/1'')] False (\<lambda>selector. [])]
                       else if selector = ''h1, h2, h3, h4, strong, *[class*="title"]''
                       then [Node [] [] [] False (\<lambda>selector. [])]
                       else []))
     = Some [(''url'', PStr ''https://www.homes.co.jp/detail/1''), (''title'', PStr ''''), (''images'', PList [])]\<close>
    by (simp add: homes_fallback_listing_data_def attr_def dict_set_def)
  have r2: \<open>homes_fallback_extract ''homes'' ''2024-05-01T09:00:00'' (\<lambda>base href. base @ href)
       ''https://www.homes.co.jp'' (\<lambda>t. None)
       [Node [] [] [] False
          (\<lambda>selector. if selector = ''a[href]'' then [Node [] [] [(''href'', ''/detail/1'')] False (\<lambda>selector. [])]
                       else if selector = ''h1, h2, h3, h4, strong, *[class*="title"]''
                       then [Node [] [] [] False (\<lambda>selector. [])]
                       else [])]
     = [[(''source'', PStr ''homes''), (''source_url'', PStr ''https://www.homes.co.jp/detail/1''),
         (''scraped_at'', PStr ''2024-05-01T09:00:00''), (''title'', PStr ''''), (''images'', PList [])]]\<close>
    unfolding homes_fallback_extract_def homes_fallback_container_def list.map d2
    by (simp add: append_cleaned_def clean_data_def clean_price_def
        dict_get_def dict_set_def standard_fields_def dict_has_def)
  from d1 r1 d2 r2 show ?thesis by (intro conjI)
qed

end
